theory Spec2Isabelle
  imports Main
begin

unbundle bit_operations_syntax

section \<open>Values, errors and the process state\<close>

text \<open>
  A shallow embedding of \<^verbatim>\<open>lib/file.js\<close>: the \<^verbatim>\<open>File\<close> handle with its
  dual-mode primitive operations, the composite operations \<^verbatim>\<open>mkdirs\<close> and
  \<^verbatim>\<open>rimraf\<close>, and the buffered \<^verbatim>\<open>FileInputStream\<close>.

  JavaScript exceptions are values of \<open>error\<close>. \<open>SystemError\<close> carries the code of a
  failed native call (EEXIST, ENOENT, ...).
\<close>

datatype error =
    ReferenceError string
  | TypeError string
  | RangeError string
  | SystemError string

text \<open>The part of an \<^verbatim>\<open>fs.Stats\<close> object the module reads.\<close>

record stats =
  st_isDirectory :: bool
  st_isFile :: bool
  st_size :: nat

text \<open>
  A readable stream as \<^verbatim>\<open>createReadStream\<close> returns it, reduced to what its listeners
  observe: \<open>readable_chunk\<close> is what \<^verbatim>\<open>stream.read()\<close> returns when
  \<^verbatim>\<open>'readable'\<close> first fires (\<open>None\<close> for \<^verbatim>\<open>null\<close>); \<open>flow\<close> is the flowing-mode
  history, either an \<^verbatim>\<open>'error'\<close> or the \<^verbatim>\<open>'data'\<close> chunks followed by \<^verbatim>\<open>'end'\<close>.
\<close>

record rstream =
  readable_chunk :: "string option"
  flow :: "error + string list"

datatype jsval =
    JUndefined
  | JNull
  | JNum int
  | JBool bool
  | JStr string
  | JErr error
  | JStats stats
  | JNames "string list"
  | JStream rstream
  | JBytes "int list"
  | JArr "jsval list"

definition SUCCESS :: int where [simp]: "SUCCESS = 1"
definition ERROR :: int where [simp]: "ERROR = 0"
definition FILE :: int where [simp]: "FILE = 3"
definition DIR :: int where [simp]: "DIR = 4"

definition F_OK :: nat where [simp]: "F_OK = 0"
definition X_OK :: nat where [simp]: "X_OK = 1"
definition W_OK :: nat where [simp]: "W_OK = 2"
definition R_OK :: nat where [simp]: "R_OK = 4"

text \<open>JavaScript truthiness, for \<^verbatim>\<open>EX || new ReferenceError(...)\<close>.\<close>

fun truthy :: "jsval \<Rightarrow> bool" where
  "truthy JUndefined = False"
| "truthy JNull = False"
| "truthy (JNum n) = (n \<noteq> 0)"
| "truthy (JBool b) = b"
| "truthy (JStr s) = (s \<noteq> [])"
| "truthy _ = True"

datatype watcher = FSWatcher string

text \<open>The fields of a \<^verbatim>\<open>File\<close> instance and of a \<^verbatim>\<open>FileInputStream\<close> instance.\<close>

record file_handle =
  path :: string
  onUnwatchDelete :: bool
  watcher :: "watcher option"
  fd :: int

record fis =
  buf :: "int list option"
  pos :: int
  count :: int
  markPos :: int

text \<open>
  The state every operation runs in: the module-level slot \<^verbatim>\<open>let EX = null\<close>, the
  world behind the native calls, the \<^verbatim>\<open>File\<close> instance that \<^verbatim>\<open>this\<close> (or
  \<^verbatim>\<open>this.file\<close>) denotes, the \<^verbatim>\<open>FileInputStream\<close> instance, and a log of the
  invocations of the caller's completion callback.
\<close>

record 'w state =
  EX_slot :: jsval
  world :: 'w
  self :: file_handle
  strm :: fis
  calls :: "(int \<times> jsval) list"

text \<open>
  A completion callback \<^verbatim>\<open>(status, payload) => ...\<close> is a state transformer. It
  returns \<open>None\<close> when it does not return (the asynchronous tree walk of
  \<^verbatim>\<open>rimraf\<close> continues inside callbacks and is bounded by fuel).
\<close>

type_synonym 'w callback = "int \<Rightarrow> jsval \<Rightarrow> 'w state \<Rightarrow> 'w state option"

text \<open>A caller's callback that only records how it was invoked.\<close>

definition record_call :: "'w callback" where
  "record_call code payload s = Some (s\<lparr>calls := calls s @ [(code, payload)]\<rparr>)"

definition handleError :: "jsval \<Rightarrow> 'w callback option \<Rightarrow> 'w state \<Rightarrow> 'w state option" where
  "handleError ex cb s =
     (case cb of
        Some f \<Rightarrow> f ERROR ex s
      | None \<Rightarrow> Some (s\<lparr>EX_slot := ex\<rparr>))"

definition handleSuccess ::
  "jsval \<Rightarrow> 'w callback option \<Rightarrow> 'w state \<Rightarrow> (jsval \<times> 'w state) option" where
  "handleSuccess result cb s =
     (case cb of
        None \<Rightarrow> Some (result, s)
      | Some f \<Rightarrow> map_option (Pair JNull) (f SUCCESS result s))"

text \<open>\<^verbatim>\<open>File.exception()\<close>: the accessor of the last-error slot.\<close>

definition exception :: "'w state \<Rightarrow> jsval" where
  "exception s = EX_slot s"

section \<open>The native layer\<close>

text \<open>
  The functions of Node's \<^verbatim>\<open>fs\<close>, \<^verbatim>\<open>path\<close> and \<^verbatim>\<open>child_process\<close> modules and of the
  buffer utility are not part of the module: they are parameters, collected in one
  record over an arbitrary world \<open>'w\<close>. A native call that throws (or whose asynchronous
  form passes \<^verbatim>\<open>err\<close>) returns \<open>Inl\<close> and leaves the world as it was. The asynchronous
  form of a native call is the same function; its callback runs on the world it
  produced.

  Two parameters stand for calls that differ from their synchronous namesakes:
  \<open>readFileBytes\<close> is \<^verbatim>\<open>readFile\<close> without options, which yields the bytes of the file
  as a \<^verbatim>\<open>Buffer\<close>, and \<open>writeOpts\<close> is \<^verbatim>\<open>fs.write\<close> called with a path, a buffer
  and an options object, whose outer \<open>Inl\<close> is an exception thrown by the call
  itself, before any callback, and whose inner sum is what its callback receives.
\<close>

datatype wbuffer = StrBuf string | ByteBuf "int list"

record 'w native =
  path_sep :: char
  path_join :: "string list \<Rightarrow> string"
  path_normalize :: "string \<Rightarrow> string"
  path_resolve :: "string \<Rightarrow> string \<Rightarrow> string"
  process_pwd :: "error + string"
  isNaN :: "string \<Rightarrow> bool"
  accessSync :: "string \<Rightarrow> nat \<Rightarrow> 'w \<Rightarrow> error option"
  mkdirSync :: "string \<Rightarrow> nat \<Rightarrow> 'w \<Rightarrow> error + 'w"
  closeSync :: "int \<Rightarrow> 'w \<Rightarrow> error + 'w"
  openSync :: "string \<Rightarrow> string \<Rightarrow> nat \<Rightarrow> 'w \<Rightarrow> error + int \<times> 'w"
  statSync :: "string \<Rightarrow> 'w \<Rightarrow> error + stats"
  fstatSync :: "string \<Rightarrow> 'w \<Rightarrow> error + stats"
  readdirSync :: "string \<Rightarrow> 'w \<Rightarrow> error + string list"
  readFileSync :: "string \<Rightarrow> 'w \<Rightarrow> error + string"
  readFileBytes :: "string \<Rightarrow> 'w \<Rightarrow> error + int list"
  unlinkSync :: "string \<Rightarrow> 'w \<Rightarrow> error + 'w"
  rmdirSync :: "string \<Rightarrow> 'w \<Rightarrow> error + 'w"
  createReadStream :: "string \<Rightarrow> int option \<Rightarrow> (int \<times> int) option \<Rightarrow> 'w \<Rightarrow> rstream"
  bufferConcat :: "string list \<Rightarrow> error + int list"
  writeString :: "int \<Rightarrow> string \<Rightarrow> int \<Rightarrow> string option \<Rightarrow> 'w \<Rightarrow> error + nat \<times> 'w"
  writeBuffer :: "int \<Rightarrow> int list \<Rightarrow> int \<Rightarrow> int \<Rightarrow> int \<Rightarrow> 'w \<Rightarrow> error + nat \<times> 'w"
  writeFileSync :: "string \<Rightarrow> wbuffer \<Rightarrow> 'w \<Rightarrow> error + 'w"
  writeOpts :: "string \<Rightarrow> wbuffer \<Rightarrow> 'w \<Rightarrow> error + (error + 'w)"
  execFileSync :: "string \<Rightarrow> string list \<Rightarrow> 'w \<Rightarrow> error + string \<times> 'w"
  execFileAsync :: "string \<Rightarrow> string list \<Rightarrow> 'w \<Rightarrow> error + (string \<times> string) \<times> 'w"

section \<open>Primitive operations\<close>

text \<open>
  Every operation returns the JavaScript return value together with the state after
  the call and after the callbacks it caused; \<open>JUndefined\<close> is the value of a call
  that falls off the end of the function.
\<close>

definition access ::
  "'w native \<Rightarrow> string option \<Rightarrow> nat \<Rightarrow> 'w callback option \<Rightarrow> bool \<Rightarrow> 'w state
    \<Rightarrow> (jsval \<times> 'w state) option" where
  "access N src mode onExists sync s =
     (case src of
        None \<Rightarrow>
          map_option (Pair JUndefined)
            (handleError (JErr (ReferenceError ''SourceNotFoundException'')) onExists s)
      | Some p \<Rightarrow>
          if sync then
            (case accessSync N p F_OK (world s) of
               None \<Rightarrow> Some (JNum SUCCESS, s)
             | Some ex \<Rightarrow> map_option (Pair (JNum ERROR)) (handleError (JErr ex) onExists s))
          else
            map_option (Pair JUndefined)
              (case accessSync N p mode (world s) of
                 Some err \<Rightarrow> handleError (JErr err) onExists s
               | None \<Rightarrow> map_option snd (handleSuccess JNull onExists s)))"

definition mkdir ::
  "'w native \<Rightarrow> string option \<Rightarrow> nat \<Rightarrow> 'w callback option \<Rightarrow> bool \<Rightarrow> 'w state
    \<Rightarrow> (jsval \<times> 'w state) option" where
  "mkdir N src mode onCreate sync s =
     (case src of
        None \<Rightarrow>
          map_option (Pair JUndefined)
            (handleError (JErr (ReferenceError ''SourceNotFoundException'')) onCreate s)
      | Some p \<Rightarrow>
          if sync then
            (case mkdirSync N p mode (world s) of
               Inr w \<Rightarrow> Some (JNum SUCCESS, s\<lparr>world := w\<rparr>)
             | Inl ex \<Rightarrow> map_option (Pair (JNum ERROR)) (handleError (JErr ex) onCreate s))
          else
            map_option (Pair JUndefined)
              (case mkdirSync N p mode (world s) of
                 Inl err \<Rightarrow> handleError (JErr err) None s
               | Inr w \<Rightarrow> map_option snd (handleSuccess JNull onCreate (s\<lparr>world := w\<rparr>))))"

definition closeFd ::
  "'w native \<Rightarrow> int option \<Rightarrow> 'w callback option \<Rightarrow> bool \<Rightarrow> 'w state
    \<Rightarrow> (jsval \<times> 'w state) option" where
  "closeFd N src onClose sync s =
     (case src of
        None \<Rightarrow>
          map_option (Pair JUndefined)
            (handleError (JErr (ReferenceError ''FileNotFoundException'')) onClose s)
      | Some d \<Rightarrow>
          if sync then
            (case closeSync N d (world s) of
               Inr w \<Rightarrow> Some (JNum SUCCESS, s\<lparr>world := w\<rparr>)
             | Inl ex \<Rightarrow> map_option (Pair (JNum ERROR)) (handleError (JErr ex) onClose s))
          else
            map_option (Pair JUndefined)
              (case closeSync N d (world s) of
                 Inl err \<Rightarrow> handleError (JErr err) None s
               | Inr w \<Rightarrow> map_option snd (handleSuccess JNull onClose (s\<lparr>world := w\<rparr>))))"

definition openFd ::
  "'w native \<Rightarrow> string option \<Rightarrow> string \<Rightarrow> nat \<Rightarrow> 'w callback option \<Rightarrow> bool \<Rightarrow> 'w state
    \<Rightarrow> (jsval \<times> 'w state) option" where
  "openFd N src flags mode onOpen sync s =
     (case src of
        None \<Rightarrow>
          map_option (Pair JUndefined)
            (handleError (JErr (ReferenceError ''SourceNotFoundException'')) onOpen s)
      | Some p \<Rightarrow>
          if sync then
            (case openSync N p flags mode (world s) of
               Inr (d, w) \<Rightarrow> Some (JNum d, s\<lparr>world := w\<rparr>)
             | Inl ex \<Rightarrow> map_option (Pair (JNum ERROR)) (handleError (JErr ex) onOpen s))
          else
            map_option (Pair JUndefined)
              (case openSync N p flags mode (world s) of
                 Inl err \<Rightarrow> handleError (JErr err) None s
               | Inr (d, w) \<Rightarrow>
                   map_option snd (handleSuccess (JNum d) onOpen (s\<lparr>world := w\<rparr>))))"

text \<open>
  \<^verbatim>\<open>File.stat\<close> chooses \<^verbatim>\<open>fstat\<close> for a source that \<^verbatim>\<open>isNaN\<close> does not reject and
  \<^verbatim>\<open>stat\<close> otherwise.
\<close>

definition native_stat :: "'w native \<Rightarrow> string \<Rightarrow> 'w \<Rightarrow> error + stats" where
  "native_stat N p w = (if \<not> isNaN N p then fstatSync N p w else statSync N p w)"

definition stat ::
  "'w native \<Rightarrow> string option \<Rightarrow> 'w callback option \<Rightarrow> bool \<Rightarrow> 'w state
    \<Rightarrow> (jsval \<times> 'w state) option" where
  "stat N src onStat sync s =
     (case src of
        None \<Rightarrow>
          map_option (Pair JUndefined)
            (handleError (JErr (ReferenceError ''StatNotFoundException'')) onStat s)
      | Some p \<Rightarrow>
          if sync then
            (case native_stat N p (world s) of
               Inr st \<Rightarrow> Some (JStats st, s)
             | Inl ex \<Rightarrow> map_option (Pair (JNum ERROR)) (handleError (JErr ex) onStat s))
          else
            map_option (Pair JUndefined)
              (case native_stat N p (world s) of
                 Inl err \<Rightarrow> handleError (JErr err) onStat s
               | Inr st \<Rightarrow> map_option snd (handleSuccess (JStats st) onStat s)))"

text \<open>
  The native read selected by the entity-kind sentinel. The synchronous branch passes
  the options (an encoding) to both calls and so reads a file as a string; the
  asynchronous branch calls \<^verbatim>\<open>readFile(src, callback)\<close> without them and hands the
  callback a \<^verbatim>\<open>Buffer\<close>.
\<close>

definition native_read :: "'w native \<Rightarrow> int \<Rightarrow> string \<Rightarrow> 'w \<Rightarrow> error + jsval" where
  "native_read N mode p w =
     (if mode = DIR then map_sum id JNames (readdirSync N p w)
      else map_sum id JStr (readFileSync N p w))"

definition native_read_async :: "'w native \<Rightarrow> int \<Rightarrow> string \<Rightarrow> 'w \<Rightarrow> error + jsval" where
  "native_read_async N mode p w =
     (if mode = DIR then map_sum id JNames (readdirSync N p w)
      else map_sum id JBytes (readFileBytes N p w))"

definition readFileOrDir ::
  "'w native \<Rightarrow> string option \<Rightarrow> int \<Rightarrow> 'w callback option \<Rightarrow> bool \<Rightarrow> 'w state
    \<Rightarrow> (jsval \<times> 'w state) option" where
  "readFileOrDir N src mode onRead sync s =
     (case src of
        None \<Rightarrow>
          map_option (Pair JUndefined)
            (handleError (JErr (ReferenceError ''SourceNotFoundException'')) onRead s)
      | Some p \<Rightarrow>
          if sync then
            (case native_read N mode p (world s) of
               Inr data \<Rightarrow> Some (data, s)
             | Inl ex \<Rightarrow> map_option (Pair (JNum ERROR)) (handleError (JErr ex) onRead s))
          else
            map_option (Pair JUndefined)
              (case native_read_async N mode p (world s) of
                 Inl err \<Rightarrow> handleError (JErr err) onRead s
               | Inr data \<Rightarrow> map_option snd (handleSuccess data onRead s)))"

text \<open>The native removal selected by the entity-kind sentinel.\<close>

definition native_remove :: "'w native \<Rightarrow> int \<Rightarrow> string \<Rightarrow> 'w \<Rightarrow> error + 'w" where
  "native_remove N mode p w = (if mode = DIR then rmdirSync N p w else unlinkSync N p w)"

definition removeFileOrDir ::
  "'w native \<Rightarrow> string option \<Rightarrow> int \<Rightarrow> 'w callback option \<Rightarrow> bool \<Rightarrow> 'w state
    \<Rightarrow> (jsval \<times> 'w state) option" where
  "removeFileOrDir N src mode onRemove sync s =
     (case src of
        None \<Rightarrow>
          map_option (Pair JUndefined)
            (handleError (JErr (ReferenceError ''FileNotFoundException'')) onRemove s)
      | Some p \<Rightarrow>
          if sync then
            (case accessSync N p (R_OK + W_OK) (world s) of
               Some ex \<Rightarrow> map_option (Pair (JNum ERROR)) (handleError (JErr ex) onRemove s)
             | None \<Rightarrow>
                 (case native_remove N mode p (world s) of
                    Inr w \<Rightarrow> Some (JNum SUCCESS, s\<lparr>world := w\<rparr>)
                  | Inl ex \<Rightarrow>
                      map_option (Pair (JNum ERROR)) (handleError (JErr ex) onRemove s)))
          else
            map_option (Pair JUndefined)
              (case accessSync N p (R_OK + W_OK) (world s) of
                 Some err \<Rightarrow> handleError (JErr err) onRemove s
               | None \<Rightarrow>
                   (case native_remove N mode p (world s) of
                      Inl err \<Rightarrow> handleError (JErr err) onRemove s
                    | Inr w \<Rightarrow>
                        map_option snd (handleSuccess JNull onRemove (s\<lparr>world := w\<rparr>)))))"

section \<open>The directory composer\<close>

text \<open>\<^verbatim>\<open>String.prototype.split\<close> with a one-character separator.\<close>

fun js_split :: "char \<Rightarrow> string \<Rightarrow> string list" where
  "js_split c [] = [[]]"
| "js_split c (x # xs) =
     (if x = c then [] # js_split c xs
      else (case js_split c xs of [] \<Rightarrow> [[x]] | w # ws \<Rightarrow> (x # w) # ws))"

definition splitPaths :: "'w native \<Rightarrow> string \<Rightarrow> string list" where
  "splitPaths N p =
     (let parts = js_split (path_sep N) p
      in map (\<lambda>i. path_join N (take i parts)) [1..<length parts + 1])"

text \<open>
  The synchronous loop of \<^verbatim>\<open>mkdirs\<close> over \<^verbatim>\<open>queue[i..]\<close>: the last element
  (\<^verbatim>\<open>i === len - 1\<close>) is created unconditionally, every other one only when
  \<^verbatim>\<open>accessSync\<close> throws. The result is the exception that left the loop, if any, and
  the world reached; directories created before a failure stay.
\<close>

fun mkdirs_loop :: "'w native \<Rightarrow> nat \<Rightarrow> string list \<Rightarrow> 'w \<Rightarrow> error option \<times> 'w" where
  "mkdirs_loop N mode [] w = (None, w)"
| "mkdirs_loop N mode [p] w =
     (case mkdirSync N p mode w of Inl ex \<Rightarrow> (Some ex, w) | Inr w' \<Rightarrow> (None, w'))"
| "mkdirs_loop N mode (p # rest) w =
     (case accessSync N p R_OK w of
        None \<Rightarrow> mkdirs_loop N mode rest w
      | Some e \<Rightarrow>
          (case mkdirSync N p mode w of
             Inl ex \<Rightarrow> (Some ex, w)
           | Inr w' \<Rightarrow> mkdirs_loop N mode rest w'))"

text \<open>
  \<^verbatim>\<open>mkdirSync(queue[0], mode)\<close> of the branch \<^verbatim>\<open>len < 2\<close>; an empty queue would pass
  \<^verbatim>\<open>undefined\<close> to the native call.
\<close>

definition mkdirs_single :: "'w native \<Rightarrow> nat \<Rightarrow> string list \<Rightarrow> 'w \<Rightarrow> error + 'w" where
  "mkdirs_single N mode queue w =
     (case queue of
        [] \<Rightarrow> Inl (TypeError ''The path argument must be of type string'')
      | p # _ \<Rightarrow> mkdirSync N p mode w)"

text \<open>
  The closure \<^verbatim>\<open>next\<close> of the asynchronous branch: \<^verbatim>\<open>queue.shift()\<close>, then a
  native call whose callback calls \<^verbatim>\<open>next\<close> again. A failed \<^verbatim>\<open>mkdir\<close> ends in
  \<^verbatim>\<open>handleError(err)\<close>, which is given no callback.
\<close>

fun mkdirs_next ::
  "'w native \<Rightarrow> nat \<Rightarrow> 'w callback option \<Rightarrow> string list \<Rightarrow> 'w state \<Rightarrow> 'w state option" where
  "mkdirs_next N mode onCreate [] s = map_option snd (handleSuccess JNull onCreate s)"
| "mkdirs_next N mode onCreate (p # queue) s =
     (if p = [] then map_option snd (handleSuccess JNull onCreate s)
      else if queue = [] then
        (case mkdirSync N p mode (world s) of
           Inl err \<Rightarrow> handleError (JErr err) None s
         | Inr w \<Rightarrow> mkdirs_next N mode onCreate queue (s\<lparr>world := w\<rparr>))
      else
        (case accessSync N p R_OK (world s) of
           None \<Rightarrow> mkdirs_next N mode onCreate queue s
         | Some e \<Rightarrow>
             (case mkdirSync N p mode (world s) of
                Inl err \<Rightarrow> handleError (JErr err) None s
              | Inr w \<Rightarrow> mkdirs_next N mode onCreate queue (s\<lparr>world := w\<rparr>))))"

definition mkdirs ::
  "'w native \<Rightarrow> string option \<Rightarrow> nat \<Rightarrow> 'w callback option \<Rightarrow> bool \<Rightarrow> 'w state
    \<Rightarrow> (jsval \<times> 'w state) option" where
  "mkdirs N src mode onCreate sync s =
     (case src of
        None \<Rightarrow>
          map_option (Pair JUndefined)
            (handleError (JErr (ReferenceError ''SourceNotFoundException'')) onCreate s)
      | Some p \<Rightarrow>
          (let queue = splitPaths N p; len = length queue in
           if sync then
             (case (if len < 2
                    then (case mkdirs_single N mode queue (world s) of
                            Inl ex \<Rightarrow> (Some ex, world s) | Inr w \<Rightarrow> (None, w))
                    else mkdirs_loop N mode queue (world s)) of
                (None, w) \<Rightarrow> Some (JNum SUCCESS, s\<lparr>world := w\<rparr>)
              | (Some ex, w) \<Rightarrow>
                  map_option (Pair (JNum ERROR))
                    (handleError (JErr ex) onCreate (s\<lparr>world := w\<rparr>)))
           else
             map_option (Pair JUndefined)
               (if len < 2 then
                  (case mkdirs_single N mode queue (world s) of
                     Inl err \<Rightarrow> handleError (JErr err) None s
                   | Inr w \<Rightarrow> map_option snd (handleSuccess JNull onCreate (s\<lparr>world := w\<rparr>)))
                else mkdirs_next N mode onCreate queue s)))"

section \<open>The directory destroyer\<close>

definition isDirectory :: "jsval \<Rightarrow> bool" where
  "isDirectory v = (case v of JStats st \<Rightarrow> st_isDirectory st | _ \<Rightarrow> False)"

text \<open>
  \<^verbatim>\<open>File.rimraf\<close> with the closures \<^verbatim>\<open>next\<close> of its two branches. The recursion
  follows the directory tree that the native layer reports, so it is bounded by fuel:
  one unit for each level of directories. \<open>None\<close> is the walk that has not returned
  within the fuel.

  In the asynchronous branch an empty listing goes straight to
  \<^verbatim>\<open>handleSuccess(null, onRemove)\<close>; \<^verbatim>\<open>next\<close> is entered only for a non-empty queue.
\<close>

function rimraf ::
  "'w native \<Rightarrow> nat \<Rightarrow> string option \<Rightarrow> 'w callback option \<Rightarrow> bool \<Rightarrow> 'w state
    \<Rightarrow> (jsval \<times> 'w state) option"
and rimraf_next_sync ::
  "'w native \<Rightarrow> nat \<Rightarrow> string \<Rightarrow> string list \<Rightarrow> 'w state \<Rightarrow> (jsval \<times> 'w state) option"
and rimraf_next_async ::
  "'w native \<Rightarrow> nat \<Rightarrow> string \<Rightarrow> string list \<Rightarrow> 'w callback option \<Rightarrow> 'w state
    \<Rightarrow> 'w state option"
where
  "rimraf N fuel None onRemove sync s =
     map_option (Pair JUndefined)
       (handleError (JErr (ReferenceError ''FileNotFoundException'')) onRemove s)"
| "rimraf N 0 (Some p) onRemove sync s = None"
| "rimraf N (Suc n) (Some p) onRemove sync s =
     (if sync then
        (case readFileOrDir N (Some p) DIR None True s of
           None \<Rightarrow> None
         | Some (result, s1) \<Rightarrow>
             (case result of
                JNames files \<Rightarrow>
                  rimraf_next_sync N n p (map (\<lambda>file. path_join N [p, file]) files) s1
              | _ \<Rightarrow>
                  if result = JNum ERROR then Some (result, s1)
                  else map_option (Pair (JNum ERROR))
                         (handleError (JErr (TypeError ''result.map is not a function''))
                            onRemove s1)))
      else
        map_option (Pair JUndefined)
          (map_option snd
             (readFileOrDir N (Some p) DIR
                (Some (\<lambda>code files s1.
                   if code = SUCCESS then
                     (case files of
                        JNames names \<Rightarrow>
                          (let queue = map (\<lambda>file. path_join N [p, file]) names in
                           if length queue = 0
                           then map_option snd (handleSuccess JNull onRemove s1)
                           else rimraf_next_async N n p queue onRemove s1)
                      | _ \<Rightarrow> Some s1)
                   else handleError JNull onRemove s1))
                False s)))"
| "rimraf_next_sync N n src [] s = removeFileOrDir N (Some src) DIR None True s"
| "rimraf_next_sync N n src (p # rest) s =
     (if p = [] then removeFileOrDir N (Some src) DIR None True s
      else
        (case stat N (Some p) None True s of
           None \<Rightarrow> None
         | Some (code, s1) \<Rightarrow>
             if code \<noteq> JNum ERROR then
               (if isDirectory code then
                  (case rimraf N n (Some p) None True s1 of
                     None \<Rightarrow> None
                   | Some (code2, s2) \<Rightarrow>
                       if code2 \<noteq> JNum ERROR then rimraf_next_sync N n src rest s2
                       else Some (code2, s2))
                else
                  (case removeFileOrDir N (Some p) FILE None True s1 of
                     None \<Rightarrow> None
                   | Some (code2, s2) \<Rightarrow>
                       if code2 \<noteq> JNum ERROR then rimraf_next_sync N n src rest s2
                       else Some (code2, s2)))
             else Some (code, s1)))"
| "rimraf_next_async N n src [] onRemove s =
     map_option snd
       (removeFileOrDir N (Some src) DIR
          (Some (\<lambda>code reason s1.
             if code = SUCCESS then map_option snd (handleSuccess (JNum code) onRemove s1)
             else handleError reason onRemove s1))
          False s)"
| "rimraf_next_async N n src (p # rest) onRemove s =
     (if p = [] then
        map_option snd
          (removeFileOrDir N (Some src) DIR
             (Some (\<lambda>code reason s1.
                if code = SUCCESS then map_option snd (handleSuccess (JNum code) onRemove s1)
                else handleError reason onRemove s1))
             False s)
      else
        map_option snd
          (stat N (Some p)
             (Some (\<lambda>code stats s1.
                if code = ERROR then handleError stats onRemove s1
                else if isDirectory stats then
                  map_option snd
                    (rimraf N n (Some p)
                       (Some (\<lambda>code reason s2.
                          if code = SUCCESS then rimraf_next_async N n src rest onRemove s2
                          else handleError reason onRemove s2))
                       False s1)
                else
                  map_option snd
                    (removeFileOrDir N (Some p) FILE
                       (Some (\<lambda>code reason s2.
                          if code = SUCCESS then rimraf_next_async N n src rest onRemove s2
                          else handleError reason onRemove s2))
                       False s1)))
             False s))"
  by pat_completeness auto
termination
  by (relation "measures [
      (\<lambda>x. case x of Inl (N, fuel, src, onRemove, sync, s) \<Rightarrow> 2 * fuel
                      | Inr (Inl (N, n, src, queue, s)) \<Rightarrow> 2 * n + 1
                      | Inr (Inr (N, n, src, queue, onRemove, s)) \<Rightarrow> 2 * n + 1),
      (\<lambda>x. case x of Inl (N, fuel, src, onRemove, sync, s) \<Rightarrow> 0
                      | Inr (Inl (N, n, src, queue, s)) \<Rightarrow> length queue
                      | Inr (Inr (N, n, src, queue, onRemove, s)) \<Rightarrow> length queue)]")
    auto

section \<open>The File handle\<close>

definition isOpen :: "'w state \<Rightarrow> bool" where
  "isOpen s = (fd (self s) \<noteq> 0)"





definition exists_file ::
  "'w native \<Rightarrow> 'w callback option \<Rightarrow> 'w state \<Rightarrow> (jsval \<times> 'w state) option" where
  "exists_file N onAccess s =
     (case onAccess of
        None \<Rightarrow> access N (Some (path (self s))) (R_OK + W_OK) None True s
      | Some cb \<Rightarrow> access N (Some (path (self s))) (R_OK + W_OK) (Some cb) False s)"

definition stats_isFile :: "jsval \<Rightarrow> bool" where
  "stats_isFile v = (case v of JStats st \<Rightarrow> st_isFile st | _ \<Rightarrow> False)"

definition isDir ::
  "'w native \<Rightarrow> 'w callback option \<Rightarrow> 'w state \<Rightarrow> (jsval \<times> 'w state) option" where
  "isDir N onAccess s =
     (case onAccess of
        None \<Rightarrow>
          (case stat N (Some (path (self s))) None True s of
             None \<Rightarrow> None
           | Some (stats, s1) \<Rightarrow>
               Some (if stats \<noteq> JNum ERROR then JBool (isDirectory stats) else stats, s1))
      | Some cb \<Rightarrow>
          stat N (Some (path (self s)))
            (Some (\<lambda>status stats s1.
               if status = SUCCESS then
                 (if isDirectory stats then cb SUCCESS JUndefined s1
                  else cb ERROR (JErr (TypeError ''NotDirectoryException'')) s1)
               else cb status stats s1))
            False s)"

definition isFile ::
  "'w native \<Rightarrow> 'w callback option \<Rightarrow> 'w state \<Rightarrow> (jsval \<times> 'w state) option" where
  "isFile N onAccess s =
     (case onAccess of
        None \<Rightarrow>
          (case stat N (Some (path (self s))) None True s of
             None \<Rightarrow> None
           | Some (stats, s1) \<Rightarrow>
               Some (if stats \<noteq> JNum ERROR then JBool (stats_isFile stats) else stats, s1))
      | Some cb \<Rightarrow>
          stat N (Some (path (self s)))
            (Some (\<lambda>status stats s1.
               if status = SUCCESS then
                 (if stats_isFile stats then cb SUCCESS JUndefined s1
                  else cb ERROR (JErr (TypeError ''NotFileException'')) s1)
               else cb status stats s1))
            False s)"

text \<open>\<^verbatim>\<open>EX = EX || new ReferenceError(msg)\<close>.\<close>

definition keep_or_set_EX :: "string \<Rightarrow> 'w state \<Rightarrow> 'w state" where
  "keep_or_set_EX msg s =
     s\<lparr>EX_slot := (if truthy (EX_slot s) then EX_slot s else JErr (ReferenceError msg))\<rparr>"

definition close ::
  "'w native \<Rightarrow> 'w callback option \<Rightarrow> 'w state \<Rightarrow> (jsval \<times> 'w state) option" where
  "close N onClose s =
     (case onClose of
        None \<Rightarrow>
          if isOpen s then
            (case closeFd N (Some (fd (self s))) None True s of
               None \<Rightarrow> None
             | Some (code, s1) \<Rightarrow>
                 (let s2 = s1\<lparr>self := (self s1)\<lparr>fd := 0\<rparr>\<rparr> in
                  if code \<noteq> JNum ERROR then Some (code, s2)
                  else Some (JNum ERROR, keep_or_set_EX ''FileExistException'' s2)))
          else
            Some (JNum ERROR, s\<lparr>EX_slot := JErr (ReferenceError ''FileNotOpenedException'')\<rparr>)
      | Some cb \<Rightarrow>
          if isOpen s then
            closeFd N (Some (fd (self s)))
              (Some (\<lambda>code reason s1. cb code reason (s1\<lparr>self := (self s1)\<lparr>fd := 0\<rparr>\<rparr>)))
              False s
          else
            map_option (Pair JUndefined)
              (cb ERROR (JErr (ReferenceError ''FileNotOpenedException'')) s))"

definition stats_size :: "jsval \<Rightarrow> jsval" where
  "stats_size v = (case v of JStats st \<Rightarrow> JNum (int (st_size st)) | _ \<Rightarrow> JUndefined)"

definition num_of :: "jsval \<Rightarrow> int" where
  "num_of v = (case v of JNum n \<Rightarrow> n | _ \<Rightarrow> 0)"

definition length_file ::
  "'w native \<Rightarrow> 'w callback option \<Rightarrow> 'w state \<Rightarrow> (jsval \<times> 'w state) option" where
  "length_file N onAccess s =
     (case onAccess of
        None \<Rightarrow>
          (case stat N (Some (path (self s))) None True s of
             None \<Rightarrow> None
           | Some (stats, s1) \<Rightarrow>
               Some (if stats \<noteq> JNum ERROR then stats_size stats else stats, s1))
      | Some cb \<Rightarrow>
          stat N (Some (path (self s)))
            (Some (\<lambda>code stats s1.
               cb code (if code = SUCCESS then stats_size stats else stats) s1))
            False s)"

text \<open>
  \<^verbatim>\<open>File.open\<close>: the descriptor is stored in \<^verbatim>\<open>this.fd\<close>, in the synchronous form
  also when it is the \<^verbatim>\<open>ERROR\<close> sentinel.
\<close>

definition open_file ::
  "'w native \<Rightarrow> string \<Rightarrow> 'w callback option \<Rightarrow> 'w state \<Rightarrow> (jsval \<times> 'w state) option" where
  "open_file N flags onOpen s =
     (case onOpen of
        None \<Rightarrow>
          (case isFile N None s of
             None \<Rightarrow> None
           | Some (isf, s1) \<Rightarrow>
               if truthy isf then
                 (case openFd N (Some (path (self s1))) flags 438 None True s1 of
                    None \<Rightarrow> None
                  | Some (code, s2) \<Rightarrow>
                      (let s3 = s2\<lparr>self := (self s2)\<lparr>fd := num_of code\<rparr>\<rparr> in
                       if code \<noteq> JNum ERROR then Some (code, s3)
                       else Some (JNum ERROR, keep_or_set_EX ''FileExistException'' s3)))
               else Some (JNum ERROR, keep_or_set_EX ''FileExistException'' s1))
      | Some cb \<Rightarrow>
          isFile N
            (Some (\<lambda>code reason s1.
               if code \<noteq> ERROR then
                 map_option snd
                   (openFd N (Some (path (self s1))) flags 438
                      (Some (\<lambda>code fdv s2.
                         if code \<noteq> ERROR
                         then cb code fdv (s2\<lparr>self := (self s2)\<lparr>fd := num_of fdv\<rparr>\<rparr>)
                         else cb code fdv s2))
                      False s1)
               else
                 cb ERROR
                   (if truthy reason then reason
                    else JErr (ReferenceError ''FileNotFoundException'')) s1))
            s)"

definition getInputStream ::
  "'w native \<Rightarrow> int \<Rightarrow> int \<Rightarrow> bool \<Rightarrow> 'w callback option \<Rightarrow> 'w state
    \<Rightarrow> (jsval \<times> 'w state) option" where
  "getInputStream N start end autoClose onAccess s =
     (let range = (if start \<noteq> - 1 \<and> end \<noteq> - 1 then Some (start, end) else None) in
      if autoClose then
        (case onAccess of
           None \<Rightarrow>
             (case isFile N None s of
                None \<Rightarrow> None
              | Some (code, s1) \<Rightarrow>
                  if code \<noteq> JNum ERROR
                  then Some (JStream (createReadStream N (path (self s1)) None range (world s1)), s1)
                  else Some (code, s1))
         | Some cb \<Rightarrow>
             isFile N
               (Some (\<lambda>code reason s1.
                  if code = SUCCESS
                  then cb code
                         (JStream (createReadStream N (path (self s1)) None range (world s1))) s1
                  else cb code reason s1))
               s)
      else
        (case onAccess of
           None \<Rightarrow>
             (case open_file N ''r'' None s of
                None \<Rightarrow> None
              | Some (fdv, s1) \<Rightarrow>
                  if fdv \<noteq> JNum ERROR
                  then Some (JStream (createReadStream N (path (self s1)) (Some (num_of fdv))
                                        range (world s1)), s1)
                  else Some (fdv, s1))
         | Some cb \<Rightarrow>
             open_file N ''r''
               (Some (\<lambda>code fdv s1.
                  if code = SUCCESS
                  then cb code
                         (JStream (createReadStream N (path (self s1)) (Some (num_of fdv))
                                     range (world s1))) s1
                  else cb code fdv s1))
               s))"

section \<open>Operations that name an undeclared identifier\<close>

text \<open>
  An identifier is resolved in the scope of the function that mentions it; one that no
  enclosing scope binds raises a \<^verbatim>\<open>ReferenceError\<close> when it is evaluated. The scopes
  below list the callback-valued bindings of the functions: \<^verbatim>\<open>writeFd\<close> and
  \<^verbatim>\<open>writeFile\<close> bind \<^verbatim>\<open>onWrite\<close>, \<^verbatim>\<open>execFile\<close> binds \<^verbatim>\<open>onAccess\<close>, and the module
  binds no callback at its top level.
\<close>

definition lookup_ident :: "(string \<times> 'a) list \<Rightarrow> string \<Rightarrow> error + 'a" where
  "lookup_ident scope x =
     (case map_of scope x of
        None \<Rightarrow> Inl (ReferenceError (x @ '' is not defined''))
      | Some v \<Rightarrow> Inr v)"

definition buffer_length :: "wbuffer \<Rightarrow> int" where
  "buffer_length b = (case b of StrBuf str \<Rightarrow> int (length str) | ByteBuf bs \<Rightarrow> int (length bs))"

definition buffer_val :: "wbuffer \<Rightarrow> jsval" where
  "buffer_val b = (case b of StrBuf str \<Rightarrow> JStr str | ByteBuf bs \<Rightarrow> JBytes bs)"

text \<open>The native write selected by \<^verbatim>\<open>typeof buffer === 'string'\<close>.\<close>

definition native_write ::
  "'w native \<Rightarrow> int \<Rightarrow> wbuffer \<Rightarrow> int \<Rightarrow> int \<Rightarrow> int \<Rightarrow> string option \<Rightarrow> 'w
    \<Rightarrow> error + nat \<times> 'w" where
  "native_write N d buffer offset len position encoding w =
     (case buffer of
        StrBuf str \<Rightarrow> writeString N d str position encoding w
      | ByteBuf bs \<Rightarrow> writeBuffer N d bs offset len position w)"

definition writeFd ::
  "'w native \<Rightarrow> int option \<Rightarrow> wbuffer \<Rightarrow> int \<Rightarrow> int \<Rightarrow> int \<Rightarrow> string
    \<Rightarrow> 'w callback option \<Rightarrow> bool \<Rightarrow> 'w state \<Rightarrow> (error + jsval \<times> 'w state) option" where
  "writeFd N src buffer offset length0 position encoding onWrite sync s =
     (case src of
        None \<Rightarrow>
          (case lookup_ident [(''onWrite'', onWrite)] ''onRead'' of
             Inl e \<Rightarrow> Some (Inl e)
           | Inr cb \<Rightarrow>
               map_option (\<lambda>s'. Inr (JUndefined, s'))
                 (handleError (JErr (ReferenceError ''SourceNotFoundException'')) cb s))
      | Some d \<Rightarrow>
          (let len = (if length0 = 0 then buffer_length buffer else length0) in
           if sync then
             (case native_write N d buffer offset len position (Some encoding) (world s) of
                Inr (n, w) \<Rightarrow> Some (Inr (JNum (int n), s\<lparr>world := w\<rparr>))
              | Inl ex \<Rightarrow>
                  map_option (\<lambda>s'. Inr (JNum ERROR, s')) (handleError (JErr ex) onWrite s))
           else
             map_option (\<lambda>s'. Inr (JUndefined, s'))
               (case native_write N d buffer offset len position None (world s) of
                  Inl err \<Rightarrow> handleError (JErr err) onWrite s
                | Inr (n, w) \<Rightarrow>
                    map_option snd
                      (handleSuccess (JArr [buffer_val buffer, JNum (int n)]) onWrite
                         (s\<lparr>world := w\<rparr>)))))"

definition writeFile ::
  "'w native \<Rightarrow> string option \<Rightarrow> wbuffer \<Rightarrow> 'w callback option \<Rightarrow> bool \<Rightarrow> 'w state
    \<Rightarrow> (error + jsval \<times> 'w state) option" where
  "writeFile N src buffer onWrite sync s =
     (case src of
        None \<Rightarrow>
          (case lookup_ident [(''onWrite'', onWrite)] ''onRead'' of
             Inl e \<Rightarrow> Some (Inl e)
           | Inr cb \<Rightarrow>
               map_option (\<lambda>s'. Inr (JUndefined, s'))
                 (handleError (JErr (ReferenceError ''SourceNotFoundException'')) cb s))
      | Some p \<Rightarrow>
          if sync then
            (case writeFileSync N p buffer (world s) of
               Inr w \<Rightarrow> Some (Inr (JNum SUCCESS, s\<lparr>world := w\<rparr>))
             | Inl ex \<Rightarrow>
                 map_option (\<lambda>s'. Inr (JNum ERROR, s')) (handleError (JErr ex) onWrite s))
          else
            (case writeOpts N p buffer (world s) of
               Inl e \<Rightarrow> Some (Inl e)
             | Inr outcome \<Rightarrow>
                 map_option (\<lambda>s'. Inr (JUndefined, s'))
                   (case outcome of
                      Inl err \<Rightarrow> handleError (JErr err) onWrite s
                    | Inr w \<Rightarrow>
                        map_option snd (handleSuccess JNull onWrite (s\<lparr>world := w\<rparr>)))))"

definition execFile ::
  "'w native \<Rightarrow> string option \<Rightarrow> string list \<Rightarrow> 'w callback option \<Rightarrow> bool \<Rightarrow> 'w state
    \<Rightarrow> (error + jsval \<times> 'w state) option" where
  "execFile N src args onAccess sync s =
     (case src of
        None \<Rightarrow>
          (case lookup_ident [(''onAccess'', onAccess)] ''onCreate'' of
             Inl e \<Rightarrow> Some (Inl e)
           | Inr cb \<Rightarrow>
               map_option (\<lambda>s'. Inr (JUndefined, s'))
                 (handleError (JErr (ReferenceError ''SourceNotFoundException'')) cb s))
      | Some p \<Rightarrow>
          if sync then
            (case execFileSync N p args (world s) of
               Inr (stdout, w) \<Rightarrow> Some (Inr (JStr stdout, s\<lparr>world := w\<rparr>))
             | Inl ex \<Rightarrow>
                 map_option (\<lambda>s'. Inr (JNum ERROR, s')) (handleError (JErr ex) onAccess s))
          else
            map_option (\<lambda>s'. Inr (JUndefined, s'))
              (case execFileAsync N p args (world s) of
                 Inl err \<Rightarrow> handleError (JErr err) None s
               | Inr ((stdout, stderr), w) \<Rightarrow>
                   map_option snd
                     (handleSuccess (JArr [JStr stdout, JStr stderr]) onAccess
                        (s\<lparr>world := w\<rparr>))))"

section \<open>The buffered input stream\<close>

text \<open>
  The methods that touch only the stream's own fields are functions of the \<open>fis\<close>
  record. \<^verbatim>\<open>ensureOpen\<close> is the only place that raises the stream-closed error, and
  \<^verbatim>\<open>read\<close> is its only caller; \<^verbatim>\<open>available\<close>, \<^verbatim>\<open>mark\<close>, \<^verbatim>\<open>reset\<close> and \<^verbatim>\<open>skip\<close>
  contain no \<^verbatim>\<open>throw\<close> and call nothing.
\<close>

definition available :: "fis \<Rightarrow> int" where
  "available st = count st - pos st"

definition ensureOpen :: "fis \<Rightarrow> error + unit" where
  "ensureOpen st = (if buf st = None then Inl (ReferenceError ''Stream closed'') else Inr ())"

definition mark :: "fis \<Rightarrow> fis" where
  "mark st = st\<lparr>markPos := pos st\<rparr>"

definition reset :: "fis \<Rightarrow> fis" where
  "reset st = st\<lparr>pos := markPos st\<rparr>"

definition skip :: "int \<Rightarrow> fis \<Rightarrow> int \<times> fis" where
  "skip n st =
     (let n1 = (if pos st + n > count st then count st - pos st else n) in
      if n1 < 0 then (0, st) else (n1, st\<lparr>pos := pos st + n1\<rparr>))"

text \<open>
  Modelled from the spec: \<^verbatim>\<open>util.arraycopy\<close> of hjs-core is not part of this
  repository; \<^verbatim>\<open>read\<close> uses it to copy \<open>len\<close> bytes of the buffer, from the read cursor
  on, into the destination from \<open>off\<close> on. A source index past the end reads as 0 and a
  destination index past the end is dropped.
\<close>

fun arraycopy :: "int list \<Rightarrow> nat \<Rightarrow> int list \<Rightarrow> nat \<Rightarrow> nat \<Rightarrow> int list" where
  "arraycopy src sp dst dp 0 = dst"
| "arraycopy src sp dst dp (Suc n) =
     arraycopy src (Suc sp) (dst[dp := (if sp < length src then src ! sp else 0)]) (Suc dp) n"

text \<open>\<^verbatim>\<open>this.buf[this.pos] & 0xff\<close>; an index outside the buffer reads \<^verbatim>\<open>undefined\<close>.\<close>

definition byte_at :: "int list \<Rightarrow> int \<Rightarrow> int" where
  "byte_at bs i = (if 0 \<le> i \<and> nat i < length bs then (bs ! nat i) AND 255 else 0)"

text \<open>
  \<^verbatim>\<open>read(b, off, len)\<close>: the result is the returned number, the destination array
  after the call and the stream after the call.
\<close>

definition read ::
  "int list option \<Rightarrow> int \<Rightarrow> int \<Rightarrow> fis \<Rightarrow> error + int \<times> int list option \<times> fis" where
  "read b off len0 st =
     (case ensureOpen st of
        Inl e \<Rightarrow> Inl e
      | Inr _ \<Rightarrow>
          (case b of
             Some dst \<Rightarrow>
               (let len = (if len0 \<noteq> 0 then len0 else int (length dst)) in
                if off < 0 \<or> len < 0 \<or> len > int (length dst) - off
                then Inl (RangeError ''IndexOutOfBoundsException'')
                else if pos st \<ge> count st then Inr (- 1, b, st)
                else
                  (let len1 = (if pos st + len > count st then count st - pos st else len) in
                   if len1 \<le> 0 then Inr (0, b, st)
                   else
                     Inr (len1,
                          Some (arraycopy (case buf st of None \<Rightarrow> [] | Some bs \<Rightarrow> bs)
                                  (nat (pos st)) dst (nat off) (nat len1)),
                          st\<lparr>pos := pos st + len1\<rparr>)))
           | None \<Rightarrow>
               if pos st < count st
               then Inr (byte_at (case buf st of None \<Rightarrow> [] | Some bs \<Rightarrow> bs) (pos st), None,
                         st\<lparr>pos := pos st + 1\<rparr>)
               else Inr (- 1, None, st)))"

text \<open>
  \<^verbatim>\<open>FileInputStream.close\<close>: the buffer is dropped and the cursors are zeroed before
  the file handle is closed.
\<close>

definition fis_close ::
  "'w native \<Rightarrow> 'w callback option \<Rightarrow> 'w state \<Rightarrow> (jsval \<times> 'w state) option" where
  "fis_close N onClose s =
     (let s1 = s\<lparr>strm := \<lparr>buf = None, pos = 0, count = 0, markPos = 0\<rparr>\<rparr> in
      case onClose of
        None \<Rightarrow> close N None s1
      | Some cb \<Rightarrow>
          map_option (\<lambda>r. (JUndefined, snd r))
            (close N (Some (\<lambda>code reason. cb code reason)) s1))"

text \<open>
  Modelled from the spec: \<^verbatim>\<open>ByteBuffer.createBuffer\<close> of hjs-io is not part of this
  repository; with a capacity it allocates a zero-filled byte buffer of that fixed
  size, with an existing buffer it wraps that buffer.
\<close>

definition createBuffer :: "int \<Rightarrow> int list" where
  "createBuffer capacity = replicate (nat capacity) 0"

text \<open>The loop \<^verbatim>\<open>for (i = 0; i < len; i++) this.buf[i] = chunk.charCodeAt(i)\<close>.\<close>

fun fill_buffer :: "int list \<Rightarrow> nat \<Rightarrow> string \<Rightarrow> int list" where
  "fill_buffer b i [] = b"
| "fill_buffer b i (c # cs) = fill_buffer (b[i := of_char c]) (Suc i) cs"

text \<open>The window assignment shared by the two acquisition strategies.\<close>

definition set_window :: "int \<Rightarrow> int \<Rightarrow> int \<Rightarrow> fis \<Rightarrow> fis" where
  "set_window offset len sz st =
     (if offset > 0 \<and> len > 0
      then st\<lparr>pos := offset, count := min (offset + len) sz\<rparr>
      else st\<lparr>count := sz, pos := 0\<rparr>)"

text \<open>
  \<^verbatim>\<open>FileInputStream.open\<close>. When \<^verbatim>\<open>stream.read()\<close> returns \<^verbatim>\<open>null\<close>, or
  \<^verbatim>\<open>Buffer.concat\<close> throws, the listener ends there: the exception is raised on the
  event loop and \<^verbatim>\<open>onReadable\<close> is not called.
\<close>

definition fis_open ::
  "'w native \<Rightarrow> int \<Rightarrow> int \<Rightarrow> bool \<Rightarrow> (jsval \<Rightarrow> 'w state \<Rightarrow> 'w state option) \<Rightarrow> 'w state
    \<Rightarrow> (jsval \<times> 'w state) option" where
  "fis_open N offset len blocking onReadable s =
     length_file N
       (Some (\<lambda>status sz s1.
          if status = SUCCESS then
            map_option snd
              (getInputStream N 0 (num_of sz) False
                 (Some (\<lambda>code stream s2.
                    if code \<noteq> ERROR then
                      (case stream of
                         JStream rs \<Rightarrow>
                           if blocking then
                             (case readable_chunk rs of
                                None \<Rightarrow>
                                  Some (s2\<lparr>strm := (strm s2)
                                          \<lparr>buf := Some (createBuffer (num_of sz))\<rparr>\<rparr>)
                              | Some chunk \<Rightarrow>
                                  onReadable JUndefined
                                    (s2\<lparr>strm := set_window offset len (num_of sz)
                                       ((strm s2)\<lparr>buf :=
                                          Some (fill_buffer (createBuffer (num_of sz)) 0 chunk)\<rparr>)\<rparr>))
                           else
                             (case flow rs of
                                Inl err \<Rightarrow> onReadable (JErr err) s2
                              | Inr chunks \<Rightarrow>
                                  (case bufferConcat N chunks of
                                     Inl e \<Rightarrow> Some s2
                                   | Inr bytes \<Rightarrow>
                                       onReadable JUndefined
                                         (s2\<lparr>strm := set_window offset len (num_of sz)
                                            ((strm s2)\<lparr>buf := Some bytes\<rparr>)\<rparr>)))
                       | _ \<Rightarrow> Some s2)
                    else onReadable stream s2))
                 s1)
          else onReadable sz s1))
       s"

section \<open>A reference world\<close>

text \<open>
  One concrete native layer, on which the operations are run at explicit inputs: a
  POSIX-like tree of directories and regular files named by path strings relative to
  the working directory \<^verbatim>\<open>.\<close>, a table of open descriptors, no permission bits and no
  executable file. The path functions follow Node's \<^verbatim>\<open>path.posix\<close>, with the root
  as the directory that \<^verbatim>\<open>resolve\<close> starts from. \<open>ref_isNaN\<close> accepts as numbers
  the strings of decimal digits only, and \<open>ref_open\<close> opens existing regular files
  whatever the flags; this is all the inputs below need.
\<close>

datatype node = Directory | Regular string

record fsys =
  entries :: "(string \<times> node) list"
  descriptors :: "(int \<times> string) list"
  next_fd :: int

fun join_with :: "string list \<Rightarrow> string" where
  "join_with [] = []"
| "join_with [p] = p"
| "join_with (p # ps) = p @ ''/'' @ join_with ps"

fun norm_segs :: "bool \<Rightarrow> string list \<Rightarrow> string list \<Rightarrow> string list" where
  "norm_segs up acc [] = acc"
| "norm_segs up acc (seg # rest) =
     (if seg = [] \<or> seg = ''.'' then norm_segs up acc rest
      else if seg = ''..'' then
        (if acc \<noteq> [] \<and> last acc \<noteq> ''..'' then norm_segs up (butlast acc) rest
         else if up then norm_segs up (acc @ [seg]) rest
         else norm_segs up acc rest)
      else norm_segs up (acc @ [seg]) rest)"

definition ref_normalize :: "string \<Rightarrow> string" where
  "ref_normalize p =
     (if p = [] then ''.''
      else
        (let absolute = (hd p = CHR ''/'');
             trailing = (last p = CHR ''/'');
             body = join_with (norm_segs (\<not> absolute) [] (js_split CHR ''/'' p))
         in if body = [] then (if absolute then ''/'' else if trailing then ''./'' else ''.'')
            else (if absolute then ''/'' else []) @ body @ (if trailing then ''/'' else [])))"

definition ref_join :: "string list \<Rightarrow> string" where
  "ref_join parts =
     (let ps = filter (\<lambda>q. q \<noteq> []) parts
      in if ps = [] then ''.'' else ref_normalize (join_with ps))"

definition ref_resolve :: "string \<Rightarrow> string \<Rightarrow> string" where
  "ref_resolve a b =
     (let joined = (if b \<noteq> [] \<and> hd b = CHR ''/'' then b
                    else if a \<noteq> [] \<and> hd a = CHR ''/'' then a @ ''/'' @ b
                    else ''/'' @ a @ ''/'' @ b)
      in ''/'' @ join_with (norm_segs False [] (js_split CHR ''/'' joined)))"

definition ref_isNaN :: "string \<Rightarrow> bool" where
  "ref_isNaN p = (\<not> list_all (\<lambda>c. c \<in> set ''0123456789'') p)"

definition ref_dirname :: "string \<Rightarrow> string" where
  "ref_dirname p =
     (let parts = js_split CHR ''/'' p
      in if length parts < 2 then ''.'' else join_with (butlast parts))"

definition ref_basename :: "string \<Rightarrow> string" where
  "ref_basename p = last (js_split CHR ''/'' p)"

definition ref_lookup :: "fsys \<Rightarrow> string \<Rightarrow> node option" where
  "ref_lookup w p = (if p = ''.'' then Some Directory else map_of (entries w) p)"

definition ref_children :: "fsys \<Rightarrow> string \<Rightarrow> string list" where
  "ref_children w p = filter (\<lambda>q. ref_dirname q = p) (map fst (entries w))"

definition ref_drop :: "string \<Rightarrow> fsys \<Rightarrow> fsys" where
  "ref_drop p w = w\<lparr>entries := filter (\<lambda>e. fst e \<noteq> p) (entries w)\<rparr>"

definition ref_access :: "string \<Rightarrow> nat \<Rightarrow> fsys \<Rightarrow> error option" where
  "ref_access p mode w =
     (case ref_lookup w p of None \<Rightarrow> Some (SystemError ''ENOENT'') | Some _ \<Rightarrow> None)"

definition ref_mkdir :: "string \<Rightarrow> nat \<Rightarrow> fsys \<Rightarrow> error + fsys" where
  "ref_mkdir p mode w =
     (case ref_lookup w p of
        Some _ \<Rightarrow> Inl (SystemError ''EEXIST'')
      | None \<Rightarrow>
          (case ref_lookup w (ref_dirname p) of
             Some Directory \<Rightarrow> Inr (w\<lparr>entries := entries w @ [(p, Directory)]\<rparr>)
           | Some (Regular _) \<Rightarrow> Inl (SystemError ''ENOTDIR'')
           | None \<Rightarrow> Inl (SystemError ''ENOENT'')))"

definition ref_stat :: "string \<Rightarrow> fsys \<Rightarrow> error + stats" where
  "ref_stat p w =
     (case ref_lookup w p of
        None \<Rightarrow> Inl (SystemError ''ENOENT'')
      | Some Directory \<Rightarrow> Inr \<lparr>st_isDirectory = True, st_isFile = False, st_size = 0\<rparr>
      | Some (Regular c) \<Rightarrow>
          Inr \<lparr>st_isDirectory = False, st_isFile = True, st_size = length c\<rparr>)"

definition ref_fstat :: "string \<Rightarrow> fsys \<Rightarrow> error + stats" where
  "ref_fstat p w = Inl (TypeError ''The fd argument must be of type number'')"

definition ref_readdir :: "string \<Rightarrow> fsys \<Rightarrow> error + string list" where
  "ref_readdir p w =
     (case ref_lookup w p of
        None \<Rightarrow> Inl (SystemError ''ENOENT'')
      | Some Directory \<Rightarrow> Inr (map ref_basename (ref_children w p))
      | Some (Regular _) \<Rightarrow> Inl (SystemError ''ENOTDIR''))"

definition ref_readFile :: "string \<Rightarrow> fsys \<Rightarrow> error + string" where
  "ref_readFile p w =
     (case ref_lookup w p of
        None \<Rightarrow> Inl (SystemError ''ENOENT'')
      | Some Directory \<Rightarrow> Inl (SystemError ''EISDIR'')
      | Some (Regular c) \<Rightarrow> Inr c)"

definition ref_readFileBytes :: "string \<Rightarrow> fsys \<Rightarrow> error + int list" where
  "ref_readFileBytes p w = map_sum id (map of_char) (ref_readFile p w)"

definition ref_unlink :: "string \<Rightarrow> fsys \<Rightarrow> error + fsys" where
  "ref_unlink p w =
     (case ref_lookup w p of
        None \<Rightarrow> Inl (SystemError ''ENOENT'')
      | Some Directory \<Rightarrow> Inl (SystemError ''EISDIR'')
      | Some (Regular _) \<Rightarrow> Inr (ref_drop p w))"

definition ref_rmdir :: "string \<Rightarrow> fsys \<Rightarrow> error + fsys" where
  "ref_rmdir p w =
     (case map_of (entries w) p of
        None \<Rightarrow> Inl (SystemError (if p = ''.'' then ''EINVAL'' else ''ENOENT''))
      | Some (Regular _) \<Rightarrow> Inl (SystemError ''ENOTDIR'')
      | Some Directory \<Rightarrow>
          if ref_children w p = [] then Inr (ref_drop p w)
          else Inl (SystemError ''ENOTEMPTY''))"

definition ref_open :: "string \<Rightarrow> string \<Rightarrow> nat \<Rightarrow> fsys \<Rightarrow> error + int \<times> fsys" where
  "ref_open p flags mode w =
     (case ref_lookup w p of
        None \<Rightarrow> Inl (SystemError ''ENOENT'')
      | Some Directory \<Rightarrow> Inl (SystemError ''EISDIR'')
      | Some (Regular _) \<Rightarrow>
          Inr (next_fd w,
               w\<lparr>descriptors := descriptors w @ [(next_fd w, p)], next_fd := next_fd w + 1\<rparr>))"

definition ref_close :: "int \<Rightarrow> fsys \<Rightarrow> error + fsys" where
  "ref_close d w =
     (case map_of (descriptors w) d of
        None \<Rightarrow> Inl (SystemError ''EBADF'')
      | Some _ \<Rightarrow> Inr (w\<lparr>descriptors := filter (\<lambda>e. fst e \<noteq> d) (descriptors w)\<rparr>))"

definition ref_content :: "fsys \<Rightarrow> string \<Rightarrow> string" where
  "ref_content w p = (case ref_lookup w p of Some (Regular c) \<Rightarrow> c | _ \<Rightarrow> [])"

text \<open>The stream over the bytes \<^verbatim>\<open>start..end\<close> (both inclusive) of the opened file.\<close>

definition ref_createReadStream ::
  "string \<Rightarrow> int option \<Rightarrow> (int \<times> int) option \<Rightarrow> fsys \<Rightarrow> rstream" where
  "ref_createReadStream p d rng w =
     (let content =
            (case d of
               None \<Rightarrow> ref_content w p
             | Some n \<Rightarrow>
                 (case map_of (descriptors w) n of
                    None \<Rightarrow> []
                  | Some q \<Rightarrow> ref_content w q));
          data =
            (case rng of
               None \<Rightarrow> content
             | Some (a, b) \<Rightarrow> take (nat (b + 1 - a)) (drop (nat a) content))
      in \<lparr>readable_chunk = (if data = [] then None else Some data),
          flow = Inr (if data = [] then [] else [data])\<rparr>)"

text \<open>
  The stream is created with an encoding, so its chunks are strings, which
  \<^verbatim>\<open>Buffer.concat\<close> rejects.
\<close>

definition ref_bufferConcat :: "string list \<Rightarrow> error + int list" where
  "ref_bufferConcat chunks =
     (if chunks = [] then Inr []
      else Inl (TypeError ''list[0] must be an instance of Buffer or Uint8Array''))"

definition ref_overwrite :: "string \<Rightarrow> nat \<Rightarrow> string \<Rightarrow> string" where
  "ref_overwrite c i str = take i c @ replicate (i - length c) (CHR 0x00) @ str
                             @ drop (i + length str) c"

definition ref_store :: "string \<Rightarrow> string \<Rightarrow> fsys \<Rightarrow> fsys" where
  "ref_store p c w =
     w\<lparr>entries := map (\<lambda>e. if fst e = p then (p, Regular c) else e) (entries w)\<rparr>"

definition ref_writeString ::
  "int \<Rightarrow> string \<Rightarrow> int \<Rightarrow> string option \<Rightarrow> fsys \<Rightarrow> error + nat \<times> fsys" where
  "ref_writeString d str position encoding w =
     (case map_of (descriptors w) d of
        None \<Rightarrow> Inl (SystemError ''EBADF'')
      | Some q \<Rightarrow>
          Inr (length str, ref_store q (ref_overwrite (ref_content w q) (nat position) str) w))"

definition ref_writeBuffer ::
  "int \<Rightarrow> int list \<Rightarrow> int \<Rightarrow> int \<Rightarrow> int \<Rightarrow> fsys \<Rightarrow> error + nat \<times> fsys" where
  "ref_writeBuffer d bs offset len position w =
     ref_writeString d (map (\<lambda>b. char_of b) (take (nat len) (drop (nat offset) bs)))
       position None w"

definition ref_writeFile :: "string \<Rightarrow> wbuffer \<Rightarrow> fsys \<Rightarrow> error + fsys" where
  "ref_writeFile p b w =
     (let c = (case b of StrBuf str \<Rightarrow> str | ByteBuf bs \<Rightarrow> map (\<lambda>x. char_of x) bs) in
      case ref_lookup w p of
        Some Directory \<Rightarrow> Inl (SystemError ''EISDIR'')
      | Some (Regular _) \<Rightarrow> Inr (ref_store p c w)
      | None \<Rightarrow>
          (case ref_lookup w (ref_dirname p) of
             Some Directory \<Rightarrow> Inr (w\<lparr>entries := entries w @ [(p, Regular c)]\<rparr>)
           | _ \<Rightarrow> Inl (SystemError ''ENOENT'')))"

text \<open>
  \<^verbatim>\<open>fs.write\<close> given a path where it expects a descriptor: the argument check throws
  before anything is dispatched.
\<close>

definition ref_writeOpts :: "string \<Rightarrow> wbuffer \<Rightarrow> fsys \<Rightarrow> error + (error + fsys)" where
  "ref_writeOpts p b w = Inl (TypeError ''The fd argument must be of type number'')"

definition ref_execFileSync :: "string \<Rightarrow> string list \<Rightarrow> fsys \<Rightarrow> error + string \<times> fsys" where
  "ref_execFileSync p args w =
     (case ref_lookup w p of
        None \<Rightarrow> Inl (SystemError ''ENOENT'')
      | Some _ \<Rightarrow> Inl (SystemError ''EACCES''))"

definition ref_execFileAsync ::
  "string \<Rightarrow> string list \<Rightarrow> fsys \<Rightarrow> error + (string \<times> string) \<times> fsys" where
  "ref_execFileAsync p args w =
     (case ref_lookup w p of
        None \<Rightarrow> Inl (SystemError ''ENOENT'')
      | Some _ \<Rightarrow> Inl (SystemError ''EACCES''))"

text \<open>Node's \<^verbatim>\<open>process\<close> object has \<^verbatim>\<open>cwd\<close> and no \<^verbatim>\<open>pwd\<close>.\<close>

definition ref :: "fsys native" where
  "ref =
     \<lparr>path_sep = CHR ''/'',
      path_join = ref_join,
      path_normalize = ref_normalize,
      path_resolve = ref_resolve,
      process_pwd = Inl (TypeError ''process.pwd is not a function''),
      isNaN = ref_isNaN,
      accessSync = ref_access,
      mkdirSync = ref_mkdir,
      closeSync = ref_close,
      openSync = ref_open,
      statSync = ref_stat,
      fstatSync = ref_fstat,
      readdirSync = ref_readdir,
      readFileSync = ref_readFile,
      readFileBytes = ref_readFileBytes,
      unlinkSync = ref_unlink,
      rmdirSync = ref_rmdir,
      createReadStream = ref_createReadStream,
      bufferConcat = ref_bufferConcat,
      writeString = ref_writeString,
      writeBuffer = ref_writeBuffer,
      writeFileSync = ref_writeFile,
      writeOpts = ref_writeOpts,
      execFileSync = ref_execFileSync,
      execFileAsync = ref_execFileAsync\<rparr>"

text \<open>
  The initial state over a given tree: the last-error slot is \<^verbatim>\<open>null\<close>, the handle
  names \<open>p\<close> and is neither open nor watched, the stream is as its constructor leaves
  it, and the callback has not been invoked.
\<close>

definition init :: "(string \<times> node) list \<Rightarrow> string \<Rightarrow> fsys state" where
  "init es p =
     \<lparr>EX_slot = JNull,
      world = \<lparr>entries = es, descriptors = [], next_fd = 3\<rparr>,
      self = \<lparr>path = p, onUnwatchDelete = False, watcher = None, fd = 0\<rparr>,
      strm = \<lparr>buf = None, pos = 0, count = 0, markPos = 0\<rparr>,
      calls = []\<rparr>"

text \<open>
  Two fixtures: the tree holding the five-byte file \<^verbatim>\<open>f\<close>, and the state in which the
  handle on \<^verbatim>\<open>f\<close> holds descriptor 3 and the stream's buffer holds the file, with the
  cursors given.
\<close>

definition hello_tree :: "(string \<times> node) list" where
  "hello_tree = [(''f'', Regular ''hello'')]"

definition hello_opened :: "int \<Rightarrow> int \<Rightarrow> fsys state" where
  "hello_opened p c =
     \<lparr>EX_slot = JNull,
      world = \<lparr>entries = hello_tree, descriptors = [(3, ''f'')], next_fd = 4\<rparr>,
      self = \<lparr>path = ''f'', onUnwatchDelete = False, watcher = None, fd = 3\<rparr>,
      strm = \<lparr>buf = Some (map of_char ''hello''), pos = p, count = c, markPos = 0\<rparr>,
      calls = []\<rparr>"

section \<open>Basic facts\<close>

lemma ref_fields [simp]:
  "path_sep ref = CHR ''/''"
  "path_join ref = ref_join"
  "path_normalize ref = ref_normalize"
  "path_resolve ref = ref_resolve"
  "process_pwd ref = Inl (TypeError ''process.pwd is not a function'')"
  "isNaN ref = ref_isNaN"
  "accessSync ref = ref_access"
  "mkdirSync ref = ref_mkdir"
  "closeSync ref = ref_close"
  "openSync ref = ref_open"
  "statSync ref = ref_stat"
  "fstatSync ref = ref_fstat"
  "readdirSync ref = ref_readdir"
  "readFileSync ref = ref_readFile"
  "unlinkSync ref = ref_unlink"
  "rmdirSync ref = ref_rmdir"
  "createReadStream ref = ref_createReadStream"
  "bufferConcat ref = ref_bufferConcat"
  by (simp_all add: ref_def)

lemma js_split_nonempty: "js_split c xs \<noteq> []"
  by (induction xs) (auto split: list.splits)

lemma splitPaths_nonempty: "splitPaths N p \<noteq> []"
  using js_split_nonempty[of "path_sep N" p]
  by (cases "js_split (path_sep N) p") (simp_all add: splitPaths_def Let_def)

section \<open>Asynchronous completion (C1)\<close>

text \<open>
  Whatever callback the caller supplies, an asynchronous \<^verbatim>\<open>mkdir\<close> whose native call
  fails ends in \<^verbatim>\<open>handleError(err)\<close>: the cause goes to the last-error slot and the
  result does not depend on the callback.
\<close>

lemma mkdir_async_error_ignores_callback:
  assumes "mkdirSync N p mode (world s) = Inl e"
  shows "mkdir N (Some p) mode cb False s = Some (JUndefined, s\<lparr>EX_slot := JErr e\<rparr>)"
  using assms by (simp add: mkdir_def handleError_def)

text \<open>The sibling \<^verbatim>\<open>access\<close> hands the same failure to the callback.\<close>

lemma access_async_error_calls_back:
  assumes "accessSync N p mode (world s) = Some e"
  shows "access N (Some p) mode (Some cb) False s
           = map_option (Pair JUndefined) (cb ERROR (JErr e) s)"
  using assms by (simp add: access_def handleError_def)

text \<open>
  C1. Claim: an asynchronous operation invokes its completion callback exactly once,
  with \<open>(ERROR, cause)\<close> when the native call fails; in particular an asynchronous
  \<^verbatim>\<open>mkdir\<close> or \<^verbatim>\<open>mkdirs\<close> whose native call fails still fires the callback.
  The code at a failing native call: the directory \<^verbatim>\<open>a\<close> (and \<^verbatim>\<open>a/b\<close>) exists, the
  recording callback is supplied, and after \<^verbatim>\<open>mkdir\<close> and after \<^verbatim>\<open>mkdirs\<close> the log of
  callback invocations is still empty; the cause sits in the last-error slot. The
  asynchronous \<^verbatim>\<open>access\<close> of a missing path does invoke the callback once.
\<close>

theorem mkdir_async_failure_never_calls_back:
  "mkdir ref (Some ''a'') 511 (Some record_call) False (init [(''a'', Directory)] ''a'')
     = Some (JUndefined,
             (init [(''a'', Directory)] ''a'')\<lparr>EX_slot := JErr (SystemError ''EEXIST'')\<rparr>)
   \<and> calls ((init [(''a'', Directory)] ''a'')\<lparr>EX_slot := JErr (SystemError ''EEXIST'')\<rparr>)
     = []
   \<and> mkdirs ref (Some ''a/b'') 511 (Some record_call) False
        (init [(''a'', Directory), (''a/b'', Directory)] ''a/b'')
     = Some (JUndefined,
             (init [(''a'', Directory), (''a/b'', Directory)] ''a/b'')
               \<lparr>EX_slot := JErr (SystemError ''EEXIST'')\<rparr>)
   \<and> access ref (Some ''zz'') R_OK (Some record_call) False (init [(''a'', Directory)] ''a'')
     = Some (JUndefined,
             (init [(''a'', Directory)] ''a'')
               \<lparr>calls := [(ERROR, JErr (SystemError ''ENOENT''))]\<rparr>)"
  by code_simp

section \<open>The directory composer on an existing leaf (C2)\<close>

lemma mkdirs_loop_accessible:
  assumes "q \<noteq> []"
    and "list_all (\<lambda>p. accessSync N p R_OK w = None) (butlast q)"
  shows "mkdirs_loop N mode q w =
           (case mkdirSync N (last q) mode w of
              Inl ex \<Rightarrow> (Some ex, w)
            | Inr w' \<Rightarrow> (None, w'))"
  using assms
proof (induction N mode q w rule: mkdirs_loop.induct)
  case (1 N mode w)
  then show ?case by simp
next
  case (2 N mode p w)
  then show ?case by simp
next
  case (3 N mode p v va w)
  then show ?case by simp
qed

text \<open>
  C2. Claim: \<^verbatim>\<open>mkdirs\<close> on a path whose whole chain, leaf included, already exists
  reports success; a second \<^verbatim>\<open>mkdirs\<close> on a path just created reports success.
  Counterexample: with \<^verbatim>\<open>a\<close> present, \<^verbatim>\<open>mkdirs('a/b')\<close> creates \<^verbatim>\<open>a/b\<close> and returns
  \<open>SUCCESS\<close>; \<^verbatim>\<open>exists\<close> then confirms the leaf; the second \<^verbatim>\<open>mkdirs('a/b')\<close> returns
  \<open>ERROR\<close> and records EEXIST.
\<close>

theorem mkdirs_second_call_counterexample:
  "mkdirs ref (Some ''a/b'') 511 None True (init [(''a'', Directory)] ''a/b'')
     = Some (JNum SUCCESS, init [(''a'', Directory), (''a/b'', Directory)] ''a/b'')
   \<and> exists_file ref None (init [(''a'', Directory), (''a/b'', Directory)] ''a/b'')
     = Some (JNum SUCCESS, init [(''a'', Directory), (''a/b'', Directory)] ''a/b'')
   \<and> mkdirs ref (Some ''a/b'') 511 None True
        (init [(''a'', Directory), (''a/b'', Directory)] ''a/b'')
     = Some (JNum ERROR,
             (init [(''a'', Directory), (''a/b'', Directory)] ''a/b'')
               \<lparr>EX_slot := JErr (SystemError ''EEXIST'')\<rparr>)"
  by code_simp

text \<open>
  When every entry of the queue but the last is accessible, the synchronous \<^verbatim>\<open>mkdirs\<close>
  reports the outcome of the native \<^verbatim>\<open>mkdir\<close> of the last entry. The queue is what
  \<^verbatim>\<open>File.splitPaths\<close> computes from the source string: the joined prefixes of its
  segments, \<^verbatim>\<open>a\<close>, \<^verbatim>\<open>a/b\<close> for \<^verbatim>\<open>a/b\<close>.
\<close>

lemma mkdirs_sync_accessible_ancestors:
  assumes "list_all (\<lambda>p. accessSync N p R_OK (world s) = None) (butlast (splitPaths N src))"
  shows "mkdirs N (Some src) mode onCreate True s =
           (case mkdirSync N (last (splitPaths N src)) mode (world s) of
              Inl e \<Rightarrow> map_option (Pair (JNum ERROR)) (handleError (JErr e) onCreate s)
            | Inr w \<Rightarrow> Some (JNum SUCCESS, s\<lparr>world := w\<rparr>))"
proof (cases "length (splitPaths N src) < 2")
  case True
  then obtain q where q: "splitPaths N src = [q]"
    using splitPaths_nonempty[of N src]
    by (cases "splitPaths N src") (auto simp: less_Suc_eq)
  show ?thesis
    by (simp add: mkdirs_def q mkdirs_single_def Let_def split: sum.splits)
next
  case False
  have "mkdirs_loop N mode (splitPaths N src) (world s) =
          (case mkdirSync N (last (splitPaths N src)) mode (world s) of
             Inl ex \<Rightarrow> (Some ex, world s)
           | Inr w' \<Rightarrow> (None, w'))"
    using mkdirs_loop_accessible[OF splitPaths_nonempty assms] .
  with False show ?thesis
    by (simp add: mkdirs_def Let_def split: sum.splits)
qed

text \<open>
  Three properties of a native layer, as hypotheses: \<^verbatim>\<open>mkdir\<close> refuses a path that
  is accessible, a path that \<^verbatim>\<open>mkdir\<close> has created is accessible, and an accessible
  path stays accessible when \<^verbatim>\<open>mkdir\<close> creates a directory. Under the last one the
  loop never loses an accessible path, and under the last two every entry of the queue
  is accessible after a run of the loop that raised nothing.
\<close>

lemma mkdirs_loop_keeps_access:
  assumes kept: "\<forall>p q w w'. accessSync N p R_OK w = None \<and> mkdirSync N q mode w = Inr w'
                    \<longrightarrow> accessSync N p R_OK w' = None"
    and "mkdirs_loop N mode q w = (r, w')"
    and "accessSync N x R_OK w = None"
  shows "accessSync N x R_OK w' = None"
  using assms(2,3)
proof (induction q arbitrary: w)
  case Nil
  then show ?case by simp
next
  case (Cons p rest)
  show ?case
  proof (cases rest)
    case Nil
    with Cons.prems show ?thesis
      by (auto split: sum.splits dest: kept[rule_format, OF conjI, simplified])
  next
    case (Cons v va)
    show ?thesis
    proof (cases "accessSync N p R_OK w")
      case None
      with Cons.prems \<open>rest = v # va\<close> have "mkdirs_loop N mode rest w = (r, w')" by simp
      then show ?thesis using Cons.IH Cons.prems(2) by blast
    next
      case (Some e)
      show ?thesis
      proof (cases "mkdirSync N p mode w")
        case (Inl ex)
        with Some Cons.prems \<open>rest = v # va\<close> show ?thesis by simp
      next
        case (Inr w1)
        with Some Cons.prems \<open>rest = v # va\<close> have run: "mkdirs_loop N mode rest w1 = (r, w')"
          by simp
        have "accessSync N x R_OK w1 = None"
          using kept Cons.prems(2) Inr by blast
        then show ?thesis using Cons.IH run by blast
      qed
    qed
  qed
qed

lemma mkdirs_loop_success_accessible:
  assumes created: "\<forall>p w w'. mkdirSync N p mode w = Inr w' \<longrightarrow> accessSync N p R_OK w' = None"
    and kept: "\<forall>p q w w'. accessSync N p R_OK w = None \<and> mkdirSync N q mode w = Inr w'
                    \<longrightarrow> accessSync N p R_OK w' = None"
    and "mkdirs_loop N mode q w = (None, w')"
  shows "list_all (\<lambda>p. accessSync N p R_OK w' = None) q"
  using assms(3)
proof (induction q arbitrary: w)
  case Nil
  then show ?case by simp
next
  case (Cons p rest)
  show ?case
  proof (cases rest)
    case Nil
    with Cons.prems obtain w1 where "mkdirSync N p mode w = Inr w1" "w' = w1"
      by (auto split: sum.splits)
    then show ?thesis
      using created Nil by simp
  next
    case (Cons v va)
    show ?thesis
    proof (cases "accessSync N p R_OK w")
      case None
      with Cons.prems \<open>rest = v # va\<close> have run: "mkdirs_loop N mode rest w = (None, w')"
        by simp
      have "accessSync N p R_OK w' = None"
        using mkdirs_loop_keeps_access[where N = N and mode = mode, OF kept run None] .
      moreover have "list_all (\<lambda>p. accessSync N p R_OK w' = None) rest"
        using Cons.IH[OF run] .
      ultimately show ?thesis by simp
    next
      case (Some e)
      with Cons.prems \<open>rest = v # va\<close> obtain w1 where mk: "mkdirSync N p mode w = Inr w1"
        and run: "mkdirs_loop N mode rest w1 = (None, w')"
        by (auto split: sum.splits)
      have "accessSync N p R_OK w1 = None" using created mk by blast
      then have "accessSync N p R_OK w' = None"
        using mkdirs_loop_keeps_access[where N = N and mode = mode, OF kept run] by blast
      moreover have "list_all (\<lambda>p. accessSync N p R_OK w' = None) rest"
        using Cons.IH[OF run] .
      ultimately show ?thesis by simp
    qed
  qed
qed

lemma mkdirs_sync_success_chain:
  assumes created: "\<forall>p w w'. mkdirSync N p mode w = Inr w' \<longrightarrow> accessSync N p R_OK w' = None"
    and kept: "\<forall>p q w w'. accessSync N p R_OK w = None \<and> mkdirSync N q mode w = Inr w'
                    \<longrightarrow> accessSync N p R_OK w' = None"
    and ok: "mkdirs N (Some src) mode onCreate True s = Some (JNum SUCCESS, s1)"
  shows "list_all (\<lambda>p. accessSync N p R_OK (world s1) = None) (splitPaths N src)"
proof (cases "length (splitPaths N src) < 2")
  case True
  then obtain q where q: "splitPaths N src = [q]"
    using splitPaths_nonempty[of N src]
    by (cases "splitPaths N src") (auto simp: less_Suc_eq)
  from ok obtain w where "mkdirSync N q mode (world s) = Inr w" "s1 = s\<lparr>world := w\<rparr>"
    by (auto simp: mkdirs_def q mkdirs_single_def Let_def split: sum.splits)
  then show ?thesis
    using created by (simp add: q)
next
  case False
  with ok obtain w where "mkdirs_loop N mode (splitPaths N src) (world s) = (None, w)"
    "s1 = s\<lparr>world := w\<rparr>"
    by (auto simp: mkdirs_def Let_def split: prod.splits option.splits)
  then show ?thesis
    using mkdirs_loop_success_accessible[where N = N and mode = mode, OF created kept]
    by simp
qed

lemma list_all_butlast: "list_all P xs \<Longrightarrow> list_all P (butlast xs)"
  by (auto simp: list_all_iff dest: in_set_butlastD)

text \<open>
  C2, amended. Take a native layer in which \<^verbatim>\<open>mkdir\<close> refuses an accessible path, a
  created directory is accessible, and accessible paths stay accessible. For every
  source string for which every path of the chain that \<^verbatim>\<open>mkdirs\<close> walks (the list of
  \<^verbatim>\<open>File.splitPaths\<close>, the leaf last) is accessible, the synchronous \<^verbatim>\<open>mkdirs\<close>
  reports \<open>ERROR\<close>, not success: the cause with which the native \<^verbatim>\<open>mkdir\<close> refuses the
  leaf goes to \<^verbatim>\<open>handleError\<close>, that is to the last-error slot when no callback is
  given. And when a first synchronous \<^verbatim>\<open>mkdirs\<close> has returned \<open>SUCCESS\<close>, a second one
  on the same source, in the state the first has left, reports \<open>ERROR\<close> in the same
  way.
\<close>

theorem mkdirs_sync_existing_chain_reports_error:
  assumes refused: "\<forall>p w. accessSync N p R_OK w = None \<longrightarrow> (\<exists>e. mkdirSync N p mode w = Inl e)"
    and created: "\<forall>p w w'. mkdirSync N p mode w = Inr w' \<longrightarrow> accessSync N p R_OK w' = None"
    and kept: "\<forall>p q w w'. accessSync N p R_OK w = None \<and> mkdirSync N q mode w = Inr w'
                    \<longrightarrow> accessSync N p R_OK w' = None"
  shows "(list_all (\<lambda>p. accessSync N p R_OK (world s) = None) (splitPaths N src) \<longrightarrow>
            (\<exists>e. mkdirSync N (last (splitPaths N src)) mode (world s) = Inl e
                 \<and> mkdirs N (Some src) mode onCreate True s
                     = map_option (Pair (JNum ERROR)) (handleError (JErr e) onCreate s)
                 \<and> mkdirs N (Some src) mode None True s
                     = Some (JNum ERROR, s\<lparr>EX_slot := JErr e\<rparr>)))
       \<and> (mkdirs N (Some src) mode onCreate True s = Some (JNum SUCCESS, s1) \<longrightarrow>
            (\<exists>e. mkdirSync N (last (splitPaths N src)) mode (world s1) = Inl e
                 \<and> mkdirs N (Some src) mode onCreate True s1
                     = map_option (Pair (JNum ERROR)) (handleError (JErr e) onCreate s1)
                 \<and> mkdirs N (Some src) mode None True s1
                     = Some (JNum ERROR, s1\<lparr>EX_slot := JErr e\<rparr>)))"
proof -
  have existing:
    "\<exists>e. mkdirSync N (last (splitPaths N src)) mode (world t) = Inl e
         \<and> mkdirs N (Some src) mode onCreate True t
             = map_option (Pair (JNum ERROR)) (handleError (JErr e) onCreate t)
         \<and> mkdirs N (Some src) mode None True t = Some (JNum ERROR, t\<lparr>EX_slot := JErr e\<rparr>)"
    if all: "list_all (\<lambda>p. accessSync N p R_OK (world t) = None) (splitPaths N src)" for t
  proof -
    have "last (splitPaths N src) \<in> set (splitPaths N src)"
      using splitPaths_nonempty[of N src] by (rule last_in_set)
    with all have "accessSync N (last (splitPaths N src)) R_OK (world t) = None"
      by (simp add: list_all_iff)
    then obtain e where e: "mkdirSync N (last (splitPaths N src)) mode (world t) = Inl e"
      using refused by blast
    have anc: "list_all (\<lambda>p. accessSync N p R_OK (world t) = None) (butlast (splitPaths N src))"
      using all by (rule list_all_butlast)
    show ?thesis
      using mkdirs_sync_accessible_ancestors[OF anc, of mode onCreate]
        mkdirs_sync_accessible_ancestors[OF anc, of mode None] e
      by (simp add: handleError_def)
  qed
  show ?thesis
    using existing[of s] existing[of s1]
      mkdirs_sync_success_chain[where N = N and mode = mode, OF created kept]
    by blast
qed

lemma ref_refuses_existing:
  "\<forall>p w. accessSync ref p R_OK w = None \<longrightarrow> (\<exists>e. mkdirSync ref p mode w = Inl e)"
  by (auto simp: ref_access_def ref_mkdir_def split: option.splits)

lemma ref_created_accessible:
  "\<forall>p w w'. mkdirSync ref p mode w = Inr w' \<longrightarrow> accessSync ref p R_OK w' = None"
  by (auto simp: ref_access_def ref_mkdir_def ref_lookup_def map_add_def
        split: option.splits node.splits if_splits)

lemma ref_keeps_accessible:
  "\<forall>p q w w'. accessSync ref p R_OK w = None \<and> mkdirSync ref q mode w = Inr w'
     \<longrightarrow> accessSync ref p R_OK w' = None"
  by (auto simp: ref_access_def ref_mkdir_def ref_lookup_def map_add_def
        split: option.splits node.splits if_splits)

theorem mkdirs_sync_existing_chain_reports_error_witness:
  "list_all
     (\<lambda>p. accessSync ref p R_OK
             (world (init [(''x'', Directory), (''x/y'', Directory)] ''x/y'')) = None)
     (splitPaths ref ''x/y'')
   \<and> mkdirs ref (Some ''x/y'') 511 None True (init [(''x'', Directory)] ''x/y'')
       = Some (JNum SUCCESS, init [(''x'', Directory), (''x/y'', Directory)] ''x/y'')
   \<and> mkdirs ref (Some ''x/y'') 511 None True
        (init [(''x'', Directory), (''x/y'', Directory)] ''x/y'')
       = Some (JNum ERROR,
               (init [(''x'', Directory), (''x/y'', Directory)] ''x/y'')
                 \<lparr>EX_slot := JErr (SystemError ''EEXIST'')\<rparr>)"
proof -
  have sp: "splitPaths ref ''x/y'' = [''x'', ''x/y'']"
    by code_simp
  have chain:
    "list_all
       (\<lambda>p. accessSync ref p R_OK
               (world (init [(''x'', Directory), (''x/y'', Directory)] ''x/y'')) = None)
       (splitPaths ref ''x/y'')"
    by (simp add: sp ref_access_def ref_lookup_def init_def)
  have first:
    "mkdirs ref (Some ''x/y'') 511 None True (init [(''x'', Directory)] ''x/y'')
       = Some (JNum SUCCESS, init [(''x'', Directory), (''x/y'', Directory)] ''x/y'')"
    by code_simp
  have leaf:
    "mkdirSync ref (last (splitPaths ref ''x/y'')) 511
       (world (init [(''x'', Directory), (''x/y'', Directory)] ''x/y''))
      = Inl (SystemError ''EEXIST'')"
    by (simp add: sp ref_mkdir_def ref_lookup_def init_def)
  show ?thesis
    using mkdirs_sync_existing_chain_reports_error
        [where N = ref and mode = 511 and s = "init [(''x'', Directory)] ''x/y''"
           and src = "''x/y''" and onCreate = None
           and ?s1.0 = "init [(''x'', Directory), (''x/y'', Directory)] ''x/y''",
         OF ref_refuses_existing ref_created_accessible ref_keeps_accessible]
      chain first leaf
    by (auto simp: handleError_def)
qed

section \<open>The directory destroyer on an empty directory (C3)\<close>

text \<open>
  In the asynchronous branch an empty listing is answered with
  \<^verbatim>\<open>handleSuccess(null, onRemove)\<close> at once: no native removal is attempted, whatever
  the native layer is.
\<close>

lemma rimraf_async_empty_listing:
  assumes "readdirSync N p (world s) = Inr []"
  shows "rimraf N (Suc n) (Some p) onRemove False s
           = map_option (Pair JUndefined) (map_option snd (handleSuccess JNull onRemove s))"
  using assms
  by (simp add: readFileOrDir_def native_read_async_def handleSuccess_def option.map_comp comp_def
        split: option.splits)

text \<open>The synchronous branch enters \<^verbatim>\<open>next\<close> also for an empty listing.\<close>

lemma rimraf_sync_empty_listing:
  assumes "readdirSync N p (world s) = Inr []"
  shows "rimraf N (Suc n) (Some p) onRemove True s = removeFileOrDir N (Some p) DIR None True s"
  using assms by (simp add: readFileOrDir_def native_read_def)

text \<open>
  C3. Claim: \<^verbatim>\<open>rimraf(d)\<close>, synchronous or asynchronous, removes every entry beneath
  \<^verbatim>\<open>d\<close> and then \<^verbatim>\<open>d\<close> itself, also when \<^verbatim>\<open>d\<close> is empty, so that \<^verbatim>\<open>exists(d)\<close>
  returns \<open>ERROR\<close> afterwards.
  The code on the empty directory \<^verbatim>\<open>d\<close>: the asynchronous \<^verbatim>\<open>rimraf\<close> calls the
  callback with \<open>(SUCCESS, null)\<close> and leaves the world as it was, and \<^verbatim>\<open>exists\<close> still
  returns \<open>SUCCESS\<close>; the synchronous \<^verbatim>\<open>rimraf\<close> removes \<^verbatim>\<open>d\<close>, and \<^verbatim>\<open>exists\<close> then
  returns \<open>ERROR\<close>. On a directory with three nested entries both forms remove all
  four entities.
\<close>

theorem rimraf_async_keeps_empty_directory:
  "rimraf ref (Suc 0) (Some ''d'') (Some record_call) False (init [(''d'', Directory)] ''d'')
     = Some (JUndefined, (init [(''d'', Directory)] ''d'')\<lparr>calls := [(SUCCESS, JNull)]\<rparr>)
   \<and> exists_file ref None ((init [(''d'', Directory)] ''d'')\<lparr>calls := [(SUCCESS, JNull)]\<rparr>)
     = Some (JNum SUCCESS, (init [(''d'', Directory)] ''d'')\<lparr>calls := [(SUCCESS, JNull)]\<rparr>)
   \<and> rimraf ref (Suc 0) (Some ''d'') None True (init [(''d'', Directory)] ''d'')
     = Some (JNum SUCCESS, init [] ''d'')
   \<and> exists_file ref None (init [] ''d'')
     = Some (JNum ERROR, (init [] ''d'')\<lparr>EX_slot := JErr (SystemError ''ENOENT'')\<rparr>)
   \<and> rimraf ref (Suc (Suc 0)) (Some ''d'') (Some record_call) False
        (init [(''d'', Directory), (''d/f'', Regular ''x''), (''d/e'', Directory),
               (''d/e/g'', Regular ''y'')] ''d'')
     = Some (JUndefined, (init [] ''d'')\<lparr>calls := [(SUCCESS, JNum SUCCESS)]\<rparr>)
   \<and> rimraf ref (Suc (Suc 0)) (Some ''d'') None True
        (init [(''d'', Directory), (''d/f'', Regular ''x''), (''d/e'', Directory),
               (''d/e/g'', Regular ''y'')] ''d'')
     = Some (JNum SUCCESS, init [] ''d'')"
  by code_simp

section \<open>A missing source argument (C4)\<close>

text \<open>
  C4. Claim: a primitive operation called with \<^verbatim>\<open>src = null\<close> reports the violation
  through the callback or the last-error slot, and no exception escapes; in particular
  for \<^verbatim>\<open>writeFd\<close>, \<^verbatim>\<open>writeFile\<close> and \<^verbatim>\<open>execFile\<close>.
  The code for these three, with any callback, in either mode and in any state:
  the argument list of \<^verbatim>\<open>handleError\<close> names \<^verbatim>\<open>onRead\<close> (\<^verbatim>\<open>onCreate\<close> in
  \<^verbatim>\<open>execFile\<close>), which no scope binds, so a \<^verbatim>\<open>ReferenceError\<close> leaves the function;
  \<^verbatim>\<open>handleError\<close> is not reached, the callback is not invoked and the last-error slot
  is not written.
\<close>

theorem null_source_raises_reference_error:
  "writeFd N None buffer offset len position encoding onWrite sync s
     = Some (Inl (ReferenceError ''onRead is not defined''))
   \<and> writeFile N None buffer onWrite sync s
     = Some (Inl (ReferenceError ''onRead is not defined''))
   \<and> execFile N None args onAccess sync s
     = Some (Inl (ReferenceError ''onCreate is not defined''))"
  by (simp add: writeFd_def writeFile_def execFile_def lookup_ident_def)

text \<open>The sibling \<^verbatim>\<open>mkdir\<close> reports the same violation through the convention.\<close>

lemma mkdir_null_source_reported:
  "mkdir N None mode (Some cb) sync s
     = map_option (Pair JUndefined)
         (cb ERROR (JErr (ReferenceError ''SourceNotFoundException'')) s)"
  "mkdir N None mode None sync s
     = Some (JUndefined, s\<lparr>EX_slot := JErr (ReferenceError ''SourceNotFoundException'')\<rparr>)"
  by (simp_all add: mkdir_def handleError_def)

section \<open>The kind checks (C5)\<close>

text \<open>
  Whenever the native \<^verbatim>\<open>stat\<close> succeeds, the callback-less \<^verbatim>\<open>isFile\<close> and
  \<^verbatim>\<open>isDir\<close> return the boolean of the \<^verbatim>\<open>Stats\<close> object and leave the state,
  the last-error slot included, as it was.
\<close>

lemma isFile_sync_is_stats_boolean:
  assumes "native_stat N (path (self s)) (world s) = Inr st"
  shows "isFile N None s = Some (JBool (st_isFile st), s)"
    and "isDir N None s = Some (JBool (st_isDirectory st), s)"
  using assms
  by (simp_all add: isFile_def isDir_def stat_def stats_isFile_def isDirectory_def)

text \<open>
  C5. Claim: for a path that exists but is of the wrong kind, \<^verbatim>\<open>isFile\<close> (and
  \<^verbatim>\<open>isDir\<close>) reports an error with the cause \<^verbatim>\<open>NotFileException\<close>
  (\<^verbatim>\<open>NotDirectoryException\<close>) in the synchronous callback-less form and in the
  asynchronous callback form alike, never a plain boolean.
  The code on the directory \<^verbatim>\<open>d\<close> and on the regular file \<^verbatim>\<open>f\<close>: the callback-less
  forms return the boolean \<^verbatim>\<open>false\<close> and leave the last-error slot \<^verbatim>\<open>null\<close>; the
  callback forms invoke the callback with \<open>ERROR\<close> and the type-mismatch cause.
\<close>

theorem isFile_sync_returns_plain_boolean:
  "isFile ref None (init [(''d'', Directory)] ''d'')
     = Some (JBool False, init [(''d'', Directory)] ''d'')
   \<and> exception (init [(''d'', Directory)] ''d'') = JNull
   \<and> isDir ref None (init hello_tree ''f'')
     = Some (JBool False, init hello_tree ''f'')
   \<and> exception (init hello_tree ''f'') = JNull
   \<and> isFile ref (Some record_call) (init [(''d'', Directory)] ''d'')
     = Some (JUndefined,
             (init [(''d'', Directory)] ''d'')
               \<lparr>calls := [(ERROR, JErr (TypeError ''NotFileException''))]\<rparr>)
   \<and> isDir ref (Some record_call) (init hello_tree ''f'')
     = Some (JUndefined,
             (init hello_tree ''f'')
               \<lparr>calls := [(ERROR, JErr (TypeError ''NotDirectoryException''))]\<rparr>)"
  by code_simp

section \<open>The stream cursors (C6)\<close>

text \<open>
  What the stream methods keep: a cursor inside the window stays inside it under
  \<^verbatim>\<open>skip\<close> and \<^verbatim>\<open>read\<close>, and \<^verbatim>\<open>open\<close> puts the cursor inside the window exactly
  when the requested offset does not exceed the size.
\<close>

lemma skip_keeps_cursor:
  assumes "pos st \<le> count st"
  shows "pos (snd (skip n st)) \<le> count (snd (skip n st))
         \<and> pos st \<le> pos (snd (skip n st))
         \<and> count (snd (skip n st)) = count st
         \<and> buf (snd (skip n st)) = buf st"
  using assms by (simp add: skip_def Let_def)

lemma read_keeps_cursor:
  assumes "pos st \<le> count st" and "read b off len st = Inr (r, b', st')"
  shows "pos st' \<le> count st' \<and> pos st \<le> pos st' \<and> count st' = count st \<and> buf st' = buf st"
  using assms
  by (auto simp: read_def ensureOpen_def Let_def split: if_splits option.splits)

lemma read_at_end_of_data:
  assumes "buf st \<noteq> None" and "count st \<le> pos st"
  shows "read None off len st = Inr (- 1, None, st)"
    and "0 \<le> off \<Longrightarrow> 0 < len \<Longrightarrow> len \<le> int (length dst) - off
           \<Longrightarrow> read (Some dst) off len st = Inr (- 1, Some dst, st)"
  using assms by (simp_all add: read_def ensureOpen_def Let_def)

lemma set_window_cursor:
  assumes "0 \<le> sz"
  shows "pos (set_window offset len sz st) \<le> count (set_window offset len sz st)
           \<longleftrightarrow> (0 < offset \<and> 0 < len \<longrightarrow> offset \<le> sz)"
  using assms by (auto simp: set_window_def)

text \<open>
  C6. Claim: after every \<^verbatim>\<open>open\<close>, \<^verbatim>\<open>read\<close>, \<^verbatim>\<open>skip\<close>, \<^verbatim>\<open>mark\<close> and \<^verbatim>\<open>reset\<close>,
  also after an \<^verbatim>\<open>open\<close> whose offset exceeds the size of the file, the invariant
  \<open>position \<le> count \<le> buffer.length\<close> holds, and a read at \<open>position \<ge> count\<close> yields
  \<open>-1\<close>.
  The code on the five-byte file opened with \<open>offset = 10\<close> and \<open>length = 3\<close>:
  \<open>count\<close> is clamped to 5 and \<open>position\<close> is set to 10, so \<open>position > count\<close> and
  \<^verbatim>\<open>available()\<close> is \<open>-5\<close>. Reads there do yield \<open>-1\<close>.
\<close>

theorem fis_open_offset_past_size:
  "fis_open ref 10 3 True (\<lambda>v s. Some s) (init hello_tree ''f'')
     = Some (JUndefined, hello_opened 10 5)
   \<and> pos (strm (hello_opened 10 5)) = 10
   \<and> count (strm (hello_opened 10 5)) = 5
   \<and> count (strm (hello_opened 10 5)) < pos (strm (hello_opened 10 5))
   \<and> available (strm (hello_opened 10 5)) = - 5
   \<and> read None 0 0 (strm (hello_opened 10 5)) = Inr (- 1, None, strm (hello_opened 10 5))
   \<and> read (Some [0, 0, 0]) 0 3 (strm (hello_opened 10 5))
       = Inr (- 1, Some [0, 0, 0], strm (hello_opened 10 5))"
  by code_simp

section \<open>The window after open (C7)\<close>

lemma fis_update_order:
  "st\<lparr>count := c, pos := p\<rparr> = st\<lparr>pos := p, count := c\<rparr>"
  by (cases st) simp


text \<open>
  The blocking strategy, over any native layer: once \<^verbatim>\<open>stat\<close> has reported a regular
  file, the native \<^verbatim>\<open>open\<close> has returned a descriptor and \<^verbatim>\<open>stream.read()\<close> has
  returned a chunk at \<^verbatim>\<open>'readable'\<close>, the state handed to \<^verbatim>\<open>onReadable\<close> has
  position \<open>offset\<close> and count \<open>min (offset + length) size\<close> when both \<open>offset\<close> and
  \<open>length\<close> are positive, and position 0 and count \<open>size\<close> otherwise.
\<close>

lemma fis_open_blocking_window:
  assumes "native_stat N (path (self s)) (world s) = Inr st"
    and "st_isFile st"
    and "openSync N (path (self s)) ''r'' 438 (world s) = Inr (d, w)"
    and "readable_chunk (createReadStream N (path (self s)) (Some d)
                           (Some (0, int (st_size st))) w) = Some chunk"
  shows "fis_open N offset len True onReadable s =
          map_option (Pair JUndefined)
            (onReadable JUndefined
               (s\<lparr>world := w, self := (self s)\<lparr>fd := d\<rparr>,
                   strm := (strm s)
                     \<lparr>buf := Some (fill_buffer (createBuffer (int (st_size st))) 0 chunk),
                      pos := (if offset > 0 \<and> len > 0 then offset else 0),
                      count := (if offset > 0 \<and> len > 0
                                then min (offset + len) (int (st_size st))
                                else int (st_size st))\<rparr>\<rparr>))"
  using assms
  by (simp add: fis_open_def length_file_def stat_def handleSuccess_def getInputStream_def
        open_file_def isFile_def openFd_def stats_size_def stats_isFile_def num_of_def
        set_window_def option.map_comp comp_def fis_update_order)

text \<open>
  The accumulating strategy, over any native layer: when \<^verbatim>\<open>Buffer.concat\<close> throws on
  the collected chunks, the \<^verbatim>\<open>'end'\<close> listener stops before the buffer and the window
  are assigned, the stream keeps the fields it had, and \<^verbatim>\<open>onReadable\<close> is not called,
  whatever it is.
\<close>

lemma fis_open_nonblocking_concat_throws:
  assumes "native_stat N (path (self s)) (world s) = Inr st"
    and "st_isFile st"
    and "openSync N (path (self s)) ''r'' 438 (world s) = Inr (d, w)"
    and "flow (createReadStream N (path (self s)) (Some d)
                 (Some (0, int (st_size st))) w) = Inr chunks"
    and "bufferConcat N chunks = Inl e"
  shows "fis_open N offset len False onReadable s =
           Some (JUndefined, s\<lparr>world := w, self := (self s)\<lparr>fd := d\<rparr>\<rparr>)"
  using assms
  by (simp add: fis_open_def length_file_def stat_def handleSuccess_def getInputStream_def
        open_file_def isFile_def openFd_def stats_size_def stats_isFile_def num_of_def
        option.map_comp comp_def)

text \<open>
  C7. Claim: after \<^verbatim>\<open>open\<close> with \<open>offset\<close> and \<open>length\<close> on a file of \<open>size\<close> bytes the
  position is \<open>offset\<close> and the count is \<open>min (offset + length) size\<close> when both are
  positive, and 0 and \<open>size\<close> otherwise; so for the file holding \<^verbatim>\<open>hello\<close>, opened
  with offset 1 and length 3, \<^verbatim>\<open>available()\<close> is 3.
  The code on that file with \<^verbatim>\<open>blocking: false\<close>: \<^verbatim>\<open>open\<close> never overrides the
  encoding that \<^verbatim>\<open>getInputStream\<close> passes to \<^verbatim>\<open>createReadStream\<close>, the chunks are
  strings, \<^verbatim>\<open>Buffer.concat\<close> throws in the \<^verbatim>\<open>'end'\<close> listener, and the window is never
  set: the descriptor is open, the buffer is still \<^verbatim>\<open>null\<close>, position and count are
  0, \<^verbatim>\<open>available()\<close> is 0, a read raises the stream-closed error and \<^verbatim>\<open>onReadable\<close>
  has not been called. With \<^verbatim>\<open>blocking: true\<close> the same call sets position 1 and
  count 4, calls \<^verbatim>\<open>onReadable\<close> once, and \<^verbatim>\<open>available()\<close> is 3.
\<close>

theorem fis_open_nonblocking_never_sets_window:
  "fis_open ref 1 3 False (record_call 0) (init hello_tree ''f'')
     = Some (JUndefined,
             (hello_opened 0 0)\<lparr>strm := \<lparr>buf = None, pos = 0, count = 0, markPos = 0\<rparr>\<rparr>)
   \<and> calls ((hello_opened 0 0)\<lparr>strm := \<lparr>buf = None, pos = 0, count = 0, markPos = 0\<rparr>\<rparr>) = []
   \<and> pos (strm ((hello_opened 0 0)\<lparr>strm := \<lparr>buf = None, pos = 0, count = 0, markPos = 0\<rparr>\<rparr>))
       = 0
   \<and> count (strm ((hello_opened 0 0)\<lparr>strm := \<lparr>buf = None, pos = 0, count = 0, markPos = 0\<rparr>\<rparr>))
       = 0
   \<and> available
        (strm ((hello_opened 0 0)\<lparr>strm := \<lparr>buf = None, pos = 0, count = 0, markPos = 0\<rparr>\<rparr>))
       = 0
   \<and> read (Some [0, 0, 0]) 0 3
        (strm ((hello_opened 0 0)\<lparr>strm := \<lparr>buf = None, pos = 0, count = 0, markPos = 0\<rparr>\<rparr>))
       = Inl (ReferenceError ''Stream closed'')
   \<and> fis_open ref 1 3 True (record_call 0) (init hello_tree ''f'')
       = Some (JUndefined, (hello_opened 1 4)\<lparr>calls := [(0, JUndefined)]\<rparr>)
   \<and> available (strm (hello_opened 1 4)) = 3"
  by code_simp

section \<open>Closing a handle (C8)\<close>

lemma close_sync_total:
  "\<exists>r s'. close N None s = Some (r, s') \<and> strm s' = strm s \<and> path (self s') = path (self s)"
  by (simp add: close_def closeFd_def handleError_def keep_or_set_EX_def isOpen_def Let_def
        split: sum.splits)

lemma close_recorded_total:
  "\<exists>r s'. close N (Some record_call) s = Some (r, s') \<and> strm s' = strm s"
  by (simp add: close_def closeFd_def handleError_def handleSuccess_def record_call_def
        isOpen_def Let_def split: sum.splits)

text \<open>
  C8. \<^verbatim>\<open>close\<close> on a handle with no tracked descriptor reports
  \<^verbatim>\<open>FileNotOpenedException\<close>: the callback-less form returns \<open>ERROR\<close> and stores the
  cause in the last-error slot, the callback form invokes the callback with
  \<open>(ERROR, cause)\<close>. When the native close succeeds, \<^verbatim>\<open>close\<close> reports \<open>SUCCESS\<close> and
  resets the tracked descriptor to 0, so the handle is no longer open and a second
  \<^verbatim>\<open>close\<close> reports \<^verbatim>\<open>FileNotOpenedException\<close> again, in both forms. Every result is
  a return value or a callback invocation; none is an exception.
\<close>

theorem close_reports_file_not_open:
  "(\<not> isOpen s \<longrightarrow>
       close N None s
         = Some (JNum ERROR, s\<lparr>EX_slot := JErr (ReferenceError ''FileNotOpenedException'')\<rparr>)
     \<and> close N (Some cb) s
         = map_option (Pair JUndefined)
             (cb ERROR (JErr (ReferenceError ''FileNotOpenedException'')) s))
   \<and> (isOpen s \<and> closeSync N (fd (self s)) (world s) = Inr w \<longrightarrow>
       close N None s = Some (JNum SUCCESS, s\<lparr>world := w, self := (self s)\<lparr>fd := 0\<rparr>\<rparr>)
     \<and> close N (Some cb) s
         = map_option (Pair JUndefined)
             (cb SUCCESS JNull (s\<lparr>world := w, self := (self s)\<lparr>fd := 0\<rparr>\<rparr>))
     \<and> \<not> isOpen (s\<lparr>world := w, self := (self s)\<lparr>fd := 0\<rparr>\<rparr>)
     \<and> close N None (s\<lparr>world := w, self := (self s)\<lparr>fd := 0\<rparr>\<rparr>)
         = Some (JNum ERROR,
                 s\<lparr>world := w, self := (self s)\<lparr>fd := 0\<rparr>,
                    EX_slot := JErr (ReferenceError ''FileNotOpenedException'')\<rparr>)
     \<and> close N (Some cb) (s\<lparr>world := w, self := (self s)\<lparr>fd := 0\<rparr>\<rparr>)
         = map_option (Pair JUndefined)
             (cb ERROR (JErr (ReferenceError ''FileNotOpenedException''))
                (s\<lparr>world := w, self := (self s)\<lparr>fd := 0\<rparr>\<rparr>)))"
  by (simp add: close_def closeFd_def handleSuccess_def isOpen_def option.map_comp comp_def)

theorem close_reports_file_not_open_witness:
  "isOpen (hello_opened 0 5)
   \<and> closeSync ref (fd (self (hello_opened 0 5))) (world (hello_opened 0 5))
       = Inr \<lparr>entries = hello_tree, descriptors = [], next_fd = 4\<rparr>
   \<and> close ref None (hello_opened 0 5)
       = Some (JNum SUCCESS,
               (hello_opened 0 5)
                 \<lparr>world := \<lparr>entries = hello_tree, descriptors = [], next_fd = 4\<rparr>,
                  self := (self (hello_opened 0 5))\<lparr>fd := 0\<rparr>\<rparr>)
   \<and> close ref None
        ((hello_opened 0 5)
           \<lparr>world := \<lparr>entries = hello_tree, descriptors = [], next_fd = 4\<rparr>,
            self := (self (hello_opened 0 5))\<lparr>fd := 0\<rparr>\<rparr>)
       = Some (JNum ERROR,
               (hello_opened 0 5)
                 \<lparr>world := \<lparr>entries = hello_tree, descriptors = [], next_fd = 4\<rparr>,
                  self := (self (hello_opened 0 5))\<lparr>fd := 0\<rparr>,
                  EX_slot := JErr (ReferenceError ''FileNotOpenedException'')\<rparr>)
   \<and> \<not> isOpen (init hello_tree ''f'')
   \<and> close ref (Some record_call) (init hello_tree ''f'')
       = Some (JUndefined,
               (init hello_tree ''f'')
                 \<lparr>calls := [(ERROR, JErr (ReferenceError ''FileNotOpenedException''))]\<rparr>)"
proof -
  have h1: "isOpen (hello_opened 0 5)"
    by (simp add: isOpen_def hello_opened_def)
  have h2:
    "closeSync ref (fd (self (hello_opened 0 5))) (world (hello_opened 0 5))
       = Inr \<lparr>entries = hello_tree, descriptors = [], next_fd = 4\<rparr>"
    by (simp add: hello_opened_def ref_close_def)
  have h3: "\<not> isOpen (init hello_tree ''f'')"
    by (simp add: isOpen_def init_def)
  have h4:
    "record_call ERROR (JErr (ReferenceError ''FileNotOpenedException'')) (init hello_tree ''f'')
       = Some ((init hello_tree ''f'')
                 \<lparr>calls := [(ERROR, JErr (ReferenceError ''FileNotOpenedException''))]\<rparr>)"
    by (simp add: record_call_def init_def)
  show ?thesis
    using close_reports_file_not_open
        [where N = ref and s = "hello_opened 0 5"
           and w = "\<lparr>entries = hello_tree, descriptors = [], next_fd = 4\<rparr>"]
      close_reports_file_not_open
        [where N = ref and s = "init hello_tree ''f''" and cb = record_call]
      h1 h2 h3 h4
    by simp
qed

section \<open>The closed stream (C9)\<close>

text \<open>
  C9. \<^verbatim>\<open>FileInputStream.close\<close> always returns, in its callback-less form and with
  a recording callback, and leaves the stream with no buffer and all three cursors at
  zero. On that stream \<^verbatim>\<open>available()\<close> is 0, \<^verbatim>\<open>skip(n)\<close> returns 0 for every \<open>n\<close>
  and leaves the stream as it is, \<^verbatim>\<open>mark\<close> and \<^verbatim>\<open>reset\<close> leave it as it is, and
  \<^verbatim>\<open>read\<close>, through \<^verbatim>\<open>ensureOpen\<close>, raises the stream-closed error for every
  argument list.
\<close>

theorem closed_stream_only_read_raises:
  "map_option (\<lambda>r. strm (snd r)) (fis_close N None s)
     = Some \<lparr>buf = None, pos = 0, count = 0, markPos = 0\<rparr>
   \<and> map_option (\<lambda>r. strm (snd r)) (fis_close N (Some record_call) s)
     = Some \<lparr>buf = None, pos = 0, count = 0, markPos = 0\<rparr>
   \<and> available \<lparr>buf = None, pos = 0, count = 0, markPos = 0\<rparr> = 0
   \<and> skip n \<lparr>buf = None, pos = 0, count = 0, markPos = 0\<rparr>
       = (0, \<lparr>buf = None, pos = 0, count = 0, markPos = 0\<rparr>)
   \<and> mark \<lparr>buf = None, pos = 0, count = 0, markPos = 0\<rparr>
       = \<lparr>buf = None, pos = 0, count = 0, markPos = 0\<rparr>
   \<and> reset \<lparr>buf = None, pos = 0, count = 0, markPos = 0\<rparr>
       = \<lparr>buf = None, pos = 0, count = 0, markPos = 0\<rparr>
   \<and> ensureOpen \<lparr>buf = None, pos = 0, count = 0, markPos = 0\<rparr>
       = Inl (ReferenceError ''Stream closed'')
   \<and> read b off len \<lparr>buf = None, pos = 0, count = 0, markPos = 0\<rparr>
       = Inl (ReferenceError ''Stream closed'')"
proof -
  obtain r s' where
    "close N None (s\<lparr>strm := \<lparr>buf = None, pos = 0, count = 0, markPos = 0\<rparr>\<rparr>) = Some (r, s')"
    "strm s' = strm (s\<lparr>strm := \<lparr>buf = None, pos = 0, count = 0, markPos = 0\<rparr>\<rparr>)"
    using close_sync_total by blast
  then have plain:
    "map_option (\<lambda>r. strm (snd r)) (fis_close N None s)
       = Some \<lparr>buf = None, pos = 0, count = 0, markPos = 0\<rparr>"
    by (simp add: fis_close_def)
  obtain q t' where
    "close N (Some record_call) (s\<lparr>strm := \<lparr>buf = None, pos = 0, count = 0, markPos = 0\<rparr>\<rparr>)
       = Some (q, t')"
    "strm t' = strm (s\<lparr>strm := \<lparr>buf = None, pos = 0, count = 0, markPos = 0\<rparr>\<rparr>)"
    using close_recorded_total by blast
  then have recorded:
    "map_option (\<lambda>r. strm (snd r)) (fis_close N (Some record_call) s)
       = Some \<lparr>buf = None, pos = 0, count = 0, markPos = 0\<rparr>"
    by (simp add: fis_close_def option.map_comp comp_def)
  from plain recorded show ?thesis
    by (simp add: available_def skip_def mark_def reset_def ensureOpen_def read_def)
qed

section \<open>A handle after setup (C10)\<close>




end
